theory Spec2Isabelle
  imports Main "HOL-Library.Char_ord" "HOL-Library.List_Lexorder" "HOL-Library.AList"
begin

section \<open>FileShareV1 backend: the endpoint \<^verbatim>\<open>server/fileShare.php\<close>\<close>

text \<open>
  The endpoint is one PHP script. Every request runs it from the top: the CORS
  preflight is answered first, then \<^verbatim>\<open>cleanupExpired\<close> sweeps the metadata
  directory, then the POST branch stores an upload or the GET branch answers an
  info or download request. The script's state is the file system below the
  upload directory; the model passes it explicitly and returns, with the new
  state, the list of file operations the script performed, in order.

  PHP strings are byte strings, and so are \<^typ>\<open>string\<close>s here.
\<close>

subsection \<open>Strings\<close>

text \<open>The character classes of the two \<^verbatim>\<open>preg_replace\<close> patterns, by byte value.\<close>

definition is_digit :: "char \<Rightarrow> bool" where
  "is_digit c = (48 \<le> (of_char c :: nat) \<and> (of_char c :: nat) \<le> 57)"

definition is_upper :: "char \<Rightarrow> bool" where
  "is_upper c = (65 \<le> (of_char c :: nat) \<and> (of_char c :: nat) \<le> 90)"

definition is_lower :: "char \<Rightarrow> bool" where
  "is_lower c = (97 \<le> (of_char c :: nat) \<and> (of_char c :: nat) \<le> 122)"

definition is_alnum :: "char \<Rightarrow> bool" where
  "is_alnum c = (is_lower c \<or> is_upper c \<or> is_digit c)"

text \<open>\<^verbatim>\<open>[A-Za-z0-9_.-]\<close>, the characters a stored name keeps.\<close>

definition is_safe :: "char \<Rightarrow> bool" where
  "is_safe c = (is_upper c \<or> is_lower c \<or> is_digit c
     \<or> c = CHR ''_'' \<or> c = CHR ''.'' \<or> c = CHR ''-'')"

text \<open>The output alphabet of \<^verbatim>\<open>bin2hex\<close>: lowercase hexadecimal digits.\<close>

definition is_hex :: "char \<Rightarrow> bool" where
  "is_hex c = (is_digit c \<or> (97 \<le> (of_char c :: nat) \<and> (of_char c :: nat) \<le> 102))"

text \<open>
  PHP's conversion of a string to bool: only the empty string and \<^verbatim>\<open>"0"\<close> are false.
  It decides \<^verbatim>\<open>!$id\<close>, \<^verbatim>\<open>!$path\<close> and the short ternary \<^verbatim>\<open>$x ?: $default\<close>.
\<close>

definition str_truthy :: "string \<Rightarrow> bool" where
  "str_truthy s = (s \<noteq> [] \<and> s \<noteq> ''0'')"

definition or_default :: "string \<Rightarrow> string \<Rightarrow> string" where
  "or_default s d = (if str_truthy s then s else d)"

text \<open>\<^verbatim>\<open>rtrim($dir, '/')\<close>.\<close>

definition rtrim_slash :: "string \<Rightarrow> string" where
  "rtrim_slash s = rev (dropWhile (\<lambda>c. c = CHR ''/'') (rev s))"

text \<open>\<^verbatim>\<open>preg_replace('/[^A-Za-z0-9_.-]/', '_', $originalName)\<close>.\<close>

definition sanitize_name :: "string \<Rightarrow> string" where
  "sanitize_name s = map (\<lambda>c. if is_safe c then c else CHR ''_'') s"

text \<open>\<^verbatim>\<open>preg_replace('/[^a-zA-Z0-9]/', '', (string) $_GET['id'])\<close>.\<close>

definition sanitize_id :: "string \<Rightarrow> string" where
  "sanitize_id s = filter is_alnum s"

text \<open>\<^verbatim>\<open>bin2hex\<close>: two lowercase hexadecimal digits for each byte, high nibble first.\<close>

definition hex_digit :: "nat \<Rightarrow> char" where
  "hex_digit n = ''0123456789abcdef'' ! (n mod 16)"

definition hex_byte :: "char \<Rightarrow> string" where
  "hex_byte c = [hex_digit ((of_char c :: nat) div 16), hex_digit ((of_char c :: nat) mod 16)]"

definition bin2hex :: "string \<Rightarrow> string" where
  "bin2hex bs = concat (map hex_byte bs)"

text \<open>\<^verbatim>\<open>strtolower\<close>, on bytes.\<close>

definition to_lower :: "char \<Rightarrow> char" where
  "to_lower c = (if is_upper c then char_of ((of_char c :: nat) + 32) else c)"

definition strtolower :: "string \<Rightarrow> string" where
  "strtolower s = map to_lower s"

text \<open>
  \<^verbatim>\<open>pathinfo($path, PATHINFO_EXTENSION)\<close>: the base name is what follows the last
  slash once trailing slashes are dropped; the extension is what follows the base
  name's last dot, and the empty string when it has no dot.
\<close>

definition after_last :: "char \<Rightarrow> string \<Rightarrow> string" where
  "after_last c s = rev (takeWhile (\<lambda>x. x \<noteq> c) (rev s))"

definition basename :: "string \<Rightarrow> string" where
  "basename p = after_last CHR ''/'' (rtrim_slash p)"

definition path_extension :: "string \<Rightarrow> string" where
  "path_extension p =
     (let b = basename p in if CHR ''.'' \<in> set b then after_last CHR ''.'' b else [])"

text \<open>\<^verbatim>\<open>isZipFile\<close>.\<close>

definition isZipFile :: "string \<Rightarrow> bool" where
  "isZipFile path =
     (if \<not> str_truthy path then False
      else strtolower (path_extension path) = ''zip'')"

text \<open>PHP's rendering of an integer in a string context.\<close>

fun digits :: "nat \<Rightarrow> string" where
  "digits n = (if n < 10 then [hex_digit n] else digits (n div 10) @ [hex_digit (n mod 10)])"

declare digits.simps [simp del]

definition int_string :: "int \<Rightarrow> string" where
  "int_string i = (if i < 0 then CHR ''-'' # digits (nat (- i)) else digits (nat i))"

subsection \<open>Values read from metadata files\<close>

text \<open>
  \<^verbatim>\<open>json_decode($text, true)\<close> returns a PHP value: null, a bool, a number, a string
  or an array (a list, or a map from keys to values). Floating-point numbers are
  left out: the script writes none and reads none.
\<close>

datatype jval =
    JNull
  | JBool bool
  | JNum int
  | JStr string
  | JArr "jval list"
  | JObj "(string \<times> jval) list"

text \<open>PHP's conversion to bool, which \<^verbatim>\<open>!$data\<close> and \<^verbatim>\<open>empty(...)\<close> apply.\<close>

fun truthy :: "jval \<Rightarrow> bool" where
  "truthy JNull = False"
| "truthy (JBool b) = b"
| "truthy (JNum n) = (n \<noteq> 0)"
| "truthy (JStr s) = str_truthy s"
| "truthy (JArr xs) = (xs \<noteq> [])"
| "truthy (JObj kvs) = (kvs \<noteq> [])"

text \<open>
  \<^verbatim>\<open>$data['key']\<close> as \<^verbatim>\<open>empty\<close>, \<^verbatim>\<open>isset\<close> and \<^verbatim>\<open>??\<close> read it: a value only when
  \<^verbatim>\<open>$data\<close> is an array with that key. The script reads no key in another way
  before \<^verbatim>\<open>empty\<close> has vouched for one.
\<close>

fun field :: "jval \<Rightarrow> string \<Rightarrow> jval option" where
  "field (JObj kvs) k = map_of kvs k"
| "field _ k = None"

text \<open>\<^verbatim>\<open>empty($data['key'])\<close>.\<close>

definition empty_field :: "jval option \<Rightarrow> bool" where
  "empty_field v = (case v of None \<Rightarrow> True | Some x \<Rightarrow> \<not> truthy x)"

text \<open>\<^verbatim>\<open>$data['key'] ?? $default\<close>: the default replaces a missing key and null.\<close>

definition coalesce :: "jval option \<Rightarrow> jval \<Rightarrow> jval" where
  "coalesce v d = (case v of None \<Rightarrow> d | Some JNull \<Rightarrow> d | Some x \<Rightarrow> x)"

text \<open>
  A value passed where PHP declares a \<^verbatim>\<open>string\<close> parameter. The script runs under
  \<^verbatim>\<open>declare(strict_types=1)\<close>, so anything but a string is a \<^verbatim>\<open>TypeError\<close>
  (\<open>None\<close>).
\<close>

definition string_arg :: "jval option \<Rightarrow> string option" where
  "string_arg v = (case v of Some (JStr s) \<Rightarrow> Some s | _ \<Rightarrow> None)"

text \<open>A value spliced into a string with the dot operator.\<close>

definition to_string :: "jval option \<Rightarrow> string" where
  "to_string v =
     (case v of
        None \<Rightarrow> []
      | Some JNull \<Rightarrow> []
      | Some (JBool b) \<Rightarrow> (if b then ''1'' else [])
      | Some (JNum n) \<Rightarrow> int_string n
      | Some (JStr s) \<Rightarrow> s
      | Some (JArr xs) \<Rightarrow> ''Array''
      | Some (JObj kvs) \<Rightarrow> ''Array'')"

subsection \<open>The PHP library\<close>

text \<open>
  The library functions the script calls but does not define are parameters of
  the model; a theorem that needs a fact about one states it as a hypothesis.
  \<^item> \<open>json_encode\<close>, \<open>json_decode\<close>: the text of a value, and the value of a text
    (\<open>JNull\<close> for a text that is not JSON).
  \<^item> \<open>date_atom t\<close>: \<^verbatim>\<open>format(DateTimeInterface::ATOM)\<close> of the instant \<open>t\<close>.
    Instants are microseconds since the epoch, the resolution of
    \<^verbatim>\<open>DateTimeImmutable\<close>; the ATOM text keeps whole seconds.
  \<^item> \<open>date_parse s\<close>: the instant \<^verbatim>\<open>new DateTimeImmutable($s)\<close> denotes, \<open>None\<close>
    when the constructor throws. Texts relative to the current time are not
    modelled: the result depends on the text alone.
  \<^item> \<open>zip_loaded\<close>: the zip extension and its \<^verbatim>\<open>ZipArchive\<close> class are present.
  \<^item> \<open>zip_open bytes\<close>: the central directory \<^verbatim>\<open>ZipArchive::open\<close> reads from a
    file with these bytes, \<open>None\<close> when \<^verbatim>\<open>open\<close> does not return true.
  \<^item> \<open>dir_size p\<close>: the size \<^verbatim>\<open>filesize\<close> reports for the directory at \<open>p\<close>,
    \<open>None\<close> when no directory lies there. The script makes the upload and the
    metadata directory at its start and removes no directory, so the directories
    are the same throughout a run; they are not part of the store of files below.
\<close>

record zentry =
  zname :: "string option"
  zsize :: "int option"

record php =
  json_encode :: "jval \<Rightarrow> string"
  json_decode :: "string \<Rightarrow> jval"
  date_atom :: "int \<Rightarrow> string"
  date_parse :: "string \<Rightarrow> int option"
  zip_loaded :: bool
  zip_open :: "string \<Rightarrow> zentry list option"
  dir_size :: "string \<Rightarrow> int option"

definition is_dir :: "php \<Rightarrow> string \<Rightarrow> bool" where
  "is_dir lib p = (dir_size lib p \<noteq> None)"

text \<open>\<^verbatim>\<open>new DateTimeImmutable($data['expiresAt'])\<close>; \<open>None\<close> when it throws.\<close>

definition date_arg :: "php \<Rightarrow> jval option \<Rightarrow> int option" where
  "date_arg lib v = (case string_arg v of None \<Rightarrow> None | Some s \<Rightarrow> date_parse lib s)"

definition second :: int where
  "second = 1000000"

subsection \<open>Configuration\<close>

text \<open>
  The script's globals: \<^verbatim>\<open>$uploadDir = __DIR__ . '/uploads'\<close>,
  \<^verbatim>\<open>$metaDir = $uploadDir . '/meta'\<close>, \<^verbatim>\<open>$expirationHours = 48\<close> and
  \<^verbatim>\<open>$maxSize = 1024 * 1024 * 1024\<close>.
\<close>

record config =
  uploadDir :: string
  metaDir :: string
  expirationHours :: int
  maxSize :: int

definition config_in :: "string \<Rightarrow> config" where
  "config_in dir =
     \<lparr> uploadDir = dir @ ''/uploads'',
       metaDir = (dir @ ''/uploads'') @ ''/meta'',
       expirationHours = 48,
       maxSize = 1024 * 1024 * 1024 \<rparr>"

subsection \<open>The file system\<close>

text \<open>
  The files below the upload directory: paths and the bytes stored there. A
  lookup finds the first entry of a path. File operations on files are taken to
  succeed, but for \<^verbatim>\<open>move_uploaded_file\<close>, whose failure the script handles. On
  a directory \<^verbatim>\<open>unlink\<close> fails and leaves the store as it is, and a directory
  reads as the empty text.
\<close>

type_synonym fs = "(string \<times> string) list"

datatype fsop = Unlink string | Write string

definition is_file :: "fs \<Rightarrow> string \<Rightarrow> bool" where
  "is_file fs p = (map_of fs p \<noteq> None)"

text \<open>\<^verbatim>\<open>file_exists($p)\<close>: true of a file of the store and of a directory.\<close>

definition file_exists :: "php \<Rightarrow> fs \<Rightarrow> string \<Rightarrow> bool" where
  "file_exists lib fs p = (is_file fs p \<or> is_dir lib p)"

text \<open>
  \<^verbatim>\<open>(string) file_get_contents($p)\<close>: what is not a file of the store reads as
  false, the empty string.
\<close>

definition file_get_contents :: "fs \<Rightarrow> string \<Rightarrow> string" where
  "file_get_contents fs p = (case map_of fs p of None \<Rightarrow> [] | Some s \<Rightarrow> s)"

definition filesize :: "php \<Rightarrow> fs \<Rightarrow> string \<Rightarrow> int" where
  "filesize lib fs p =
     (case map_of fs p of
        Some s \<Rightarrow> int (length s)
      | None \<Rightarrow> (case dir_size lib p of Some n \<Rightarrow> n | None \<Rightarrow> 0))"

definition unlink :: "string \<Rightarrow> fs \<Rightarrow> fs" where
  "unlink p fs = AList.delete p fs"

definition file_put_contents :: "string \<Rightarrow> string \<Rightarrow> fs \<Rightarrow> fs" where
  "file_put_contents p s fs = AList.update p s fs"

text \<open>
  \<^verbatim>\<open>glob($dir . '/*.json')\<close>: the files directly in the directory whose name ends
  in \<^verbatim>\<open>.json\<close> and does not start with a dot (the star matches no slash and no
  leading dot), in byte order. A directory of such a name is left out: it reads
  as the empty text, which the sweep skips.
\<close>

definition meta_pattern :: "string \<Rightarrow> string \<Rightarrow> bool" where
  "meta_pattern dir p =
     (let pre = rtrim_slash dir @ ''/''; name = drop (length pre) p in
      take (length pre) p = pre \<and> CHR ''/'' \<notin> set name \<and> 5 \<le> length name
      \<and> drop (length name - 5) name = ''.json'' \<and> take 1 name \<noteq> ''.'')"

definition glob_json :: "string \<Rightarrow> fs \<Rightarrow> string list" where
  "glob_json dir fs = sort (remdups (filter (meta_pattern dir) (map fst fs)))"

subsection \<open>The sweeper: \<^verbatim>\<open>cleanupExpired\<close>\<close>

text \<open>
  An uncaught exception ends the script where it is thrown; what it has deleted
  so far stays deleted.
\<close>

datatype outcome = Done | Threw

text \<open>
  One pass of the \<^verbatim>\<open>foreach\<close> body, for the metadata file \<open>metaPath\<close> at the
  sweep's clock reading \<open>now\<close>.
\<close>

definition sweep_one :: "php \<Rightarrow> int \<Rightarrow> string \<Rightarrow> fs \<Rightarrow> outcome \<times> fs \<times> fsop list" where
  "sweep_one lib now metaPath fs =
     (let data = json_decode lib (file_get_contents fs metaPath) in
      if \<not> truthy data \<or> empty_field (field data ''expiresAt'') then (Done, fs, [])
      else
        (case date_arg lib (field data ''expiresAt'') of
           None \<Rightarrow> (Threw, fs, [])
         | Some expires \<Rightarrow>
             if expires < now then
               (if empty_field (field data ''path'') then
                  (Done, unlink metaPath fs, [Unlink metaPath])
                else
                  (case string_arg (field data ''path'') of
                     None \<Rightarrow> (Threw, fs, [])
                   | Some path \<Rightarrow>
                       if file_exists lib fs path then
                         (Done, unlink metaPath (unlink path fs), [Unlink path, Unlink metaPath])
                       else (Done, unlink metaPath fs, [Unlink metaPath])))
             else (Done, fs, [])))"

fun sweep_loop :: "php \<Rightarrow> int \<Rightarrow> string list \<Rightarrow> fs \<Rightarrow> outcome \<times> fs \<times> fsop list" where
  "sweep_loop lib now [] fs = (Done, fs, [])"
| "sweep_loop lib now (metaPath # rest) fs =
     (case sweep_one lib now metaPath fs of
        (Threw, fs1, ops1) \<Rightarrow> (Threw, fs1, ops1)
      | (Done, fs1, ops1) \<Rightarrow>
          (case sweep_loop lib now rest fs1 of
             (r, fs2, ops2) \<Rightarrow> (r, fs2, ops1 @ ops2)))"

text \<open>
  \<^verbatim>\<open>cleanupExpired($metaDir, $expirationHours)\<close>; the clock is read once, before
  the loop. The second parameter is not used by the function.
\<close>

definition cleanupExpired ::
  "php \<Rightarrow> string \<Rightarrow> int \<Rightarrow> int \<Rightarrow> fs \<Rightarrow> outcome \<times> fs \<times> fsop list" where
  "cleanupExpired lib dir hours now fs = sweep_loop lib now (glob_json dir fs) fs"

subsection \<open>The archive previewer: \<^verbatim>\<open>buildZipPreview\<close>\<close>

text \<open>
  An entry is skipped when \<^verbatim>\<open>getNameIndex\<close> returns false or the name ends in a
  slash.
\<close>

definition is_placeholder :: "zentry \<Rightarrow> bool" where
  "is_placeholder e =
     (case zname e of None \<Rightarrow> True | Some n \<Rightarrow> n \<noteq> [] \<and> last n = CHR ''/'')"

definition preview_entry :: "zentry \<Rightarrow> jval" where
  "preview_entry e =
     JObj [(''name'', JStr (case zname e of None \<Rightarrow> [] | Some n \<Rightarrow> n)),
           (''size'', JNum (case zsize e of None \<Rightarrow> 0 | Some n \<Rightarrow> n))]"

text \<open>
  The outer \<^verbatim>\<open>for\<close> loop over the entries not yet visited, with the entries
  collected so far. When the limit is reached, the inner loop looks for one more
  content entry among the rest.
\<close>

fun zip_scan :: "int \<Rightarrow> zentry list \<Rightarrow> jval list \<Rightarrow> jval list \<times> bool" where
  "zip_scan limit [] entries = (entries, False)"
| "zip_scan limit (e # rest) entries =
     (if is_placeholder e then zip_scan limit rest entries
      else
        (let entries' = entries @ [preview_entry e] in
         if limit \<le> int (length entries') then
           (entries', list_ex (\<lambda>x. \<not> is_placeholder x) rest)
         else zip_scan limit rest entries'))"

record preview =
  zipContents :: "jval list"
  zipTruncated :: bool

text \<open>
  \<^verbatim>\<open>buildZipPreview($filePath, $limit)\<close>. For a path that exists but is no file of
  the store, a directory, \<^verbatim>\<open>open\<close> does not return true.
\<close>

definition buildZipPreview :: "php \<Rightarrow> fs \<Rightarrow> string \<Rightarrow> int \<Rightarrow> preview" where
  "buildZipPreview lib fs filePath limit =
     (if \<not> file_exists lib fs filePath \<or> \<not> zip_loaded lib then
        \<lparr> zipContents = [], zipTruncated = False \<rparr>
      else
        (case map_of fs filePath of
           None \<Rightarrow> \<lparr> zipContents = [], zipTruncated = False \<rparr>
         | Some bytes \<Rightarrow>
             (case zip_open lib bytes of
                None \<Rightarrow> \<lparr> zipContents = [], zipTruncated = False \<rparr>
              | Some es \<Rightarrow>
                  (case zip_scan limit es [] of
                     (entries, truncated) \<Rightarrow>
                       \<lparr> zipContents = entries, zipTruncated = truncated \<rparr>))))"

subsection \<open>Requests and responses\<close>

text \<open>
  What the script reads of a request: the method, \<^verbatim>\<open>$_POST['action']\<close>,
  \<^verbatim>\<open>$_FILES['file']\<close>, \<^verbatim>\<open>$_GET['id']\<close>, whether \<^verbatim>\<open>$_GET['info']\<close> is set, and the
  URL \<^verbatim>\<open>baseUrl()\<close> builds from the server variables.
\<close>

record upload =
  upl_name :: string
  upl_error :: int
  upl_size :: int
  upl_tmp :: string

record request =
  req_method :: string
  post_action :: "string option"
  files_file :: "upload option"
  get_id :: "string option"
  get_info :: bool
  base_url :: string

text \<open>
  What the run of a request draws from outside: the clock, read by the sweep
  (\<open>at_sweep\<close>), for \<^verbatim>\<open>expiresAt\<close> (\<open>at_expiry\<close>), for \<^verbatim>\<open>uploadedAt\<close> (\<open>at_stamp\<close>)
  and by the expiry check of the GET branch (\<open>at_check\<close>); the six bytes of
  \<^verbatim>\<open>random_bytes(6)\<close>; and whether \<^verbatim>\<open>move_uploaded_file\<close> succeeds (it does
  not, for one, when a directory lies at the target path).
\<close>

record world =
  at_sweep :: int
  at_expiry :: int
  at_stamp :: int
  at_check :: int
  random_bytes :: string
  move_ok :: bool

text \<open>
  A response: the preflight's 204, \<^verbatim>\<open>jsonResponse($payload, $status)\<close>, a plain
  text with its status, the download (its header lines and the bytes
  \<^verbatim>\<open>readfile\<close> sends), or the failure PHP reports for an uncaught exception.
\<close>

datatype response =
    NoContent
  | Json nat jval
  | Plain nat string
  | Download "string list" string
  | Fatal

definition json_error :: "nat \<Rightarrow> string \<Rightarrow> response" where
  "json_error status msg = Json status (JObj [(''success'', JBool False), (''error'', JStr msg)])"

definition json_ok :: "jval \<Rightarrow> response" where
  "json_ok d = Json 200 (JObj [(''success'', JBool True), (''data'', d)])"

subsection \<open>The POST branch: upload\<close>

definition original_name :: "upload \<Rightarrow> string" where
  "original_name u = or_default (upl_name u) ''fileshare.bin''"

definition new_id :: "world \<Rightarrow> string" where
  "new_id w = bin2hex (random_bytes w)"

definition stored_name :: "string \<Rightarrow> string \<Rightarrow> string" where
  "stored_name ident originalName =
     ident @ ''__'' @ or_default (sanitize_name originalName) ''fileshare.bin''"

definition target_path :: "config \<Rightarrow> string \<Rightarrow> string" where
  "target_path cfg storedName = rtrim_slash (uploadDir cfg) @ ''/'' @ storedName"

definition meta_path :: "config \<Rightarrow> string \<Rightarrow> string" where
  "meta_path cfg ident = rtrim_slash (metaDir cfg) @ ''/'' @ ident @ ''.json''"

definition expires_at :: "php \<Rightarrow> config \<Rightarrow> world \<Rightarrow> string" where
  "expires_at lib cfg w = date_atom lib (at_expiry w + expirationHours cfg * 3600 * second)"

text \<open>The \<^verbatim>\<open>$meta\<close> array, built once the payload is in place at the target path.\<close>

definition upload_meta :: "php \<Rightarrow> config \<Rightarrow> world \<Rightarrow> upload \<Rightarrow> fs \<Rightarrow> jval" where
  "upload_meta lib cfg w u fs1 =
     (let ident = new_id w;
          storedName = stored_name ident (original_name u);
          targetPath = target_path cfg storedName
      in JObj [(''id'', JStr ident),
               (''filename'', JStr (original_name u)),
               (''storedName'', JStr storedName),
               (''path'', JStr targetPath),
               (''size'', JNum (filesize lib fs1 targetPath)),
               (''expiresAt'', JStr (expires_at lib cfg w)),
               (''uploadedAt'', JStr (date_atom lib (at_stamp w)))])"

definition handle_post ::
  "php \<Rightarrow> config \<Rightarrow> world \<Rightarrow> request \<Rightarrow> fs \<Rightarrow> response \<times> fs \<times> fsop list" where
  "handle_post lib cfg w req fs =
     (if (case post_action req of None \<Rightarrow> [] | Some a \<Rightarrow> a) \<noteq> ''upload'' then
        (json_error 400 ''Invalid action'', fs, [])
      else
        (case files_file req of
           None \<Rightarrow> (json_error 400 ''Missing file payload'', fs, [])
         | Some u \<Rightarrow>
             if upl_error u \<noteq> 0 then
               (json_error 400
                  (''Upload failed (error code '' @ int_string (upl_error u) @ '')''), fs, [])
             else if maxSize cfg < upl_size u then
               (json_error 413 ''File exceeds maximum allowed size'', fs, [])
             else
               (let ident = new_id w;
                    storedName = stored_name ident (original_name u);
                    targetPath = target_path cfg storedName
                in if \<not> move_ok w then
                     (json_error 500 ''Unable to save uploaded file'', fs, [])
                   else
                     (let fs1 = file_put_contents targetPath (upl_tmp u) fs;
                          meta = upload_meta lib cfg w u fs1;
                          fs2 = file_put_contents (meta_path cfg ident) (json_encode lib meta) fs1
                      in (json_ok
                            (JObj [(''id'', JStr ident),
                                   (''filename'', JStr (original_name u)),
                                   (''downloadUrl'', JStr (base_url req @ ''?id='' @ ident)),
                                   (''expiresAt'', JStr (expires_at lib cfg w)),
                                   (''size'', coalesce (field meta ''size'') JNull)]),
                          fs2, [Write targetPath, Write (meta_path cfg ident)])))))"

subsection \<open>The GET branch: info and download\<close>

definition bad_id :: "bool \<Rightarrow> response" where
  "bad_id info = (if info then json_error 400 ''Invalid file id'' else Plain 400 ''Invalid download id'')"

definition not_found :: "bool \<Rightarrow> response" where
  "not_found info = (if info then json_error 404 ''File not found'' else Plain 404 ''File not found'')"

definition gone :: "bool \<Rightarrow> response" where
  "gone info = (if info then json_error 410 ''Link expired'' else Plain 410 ''Link expired'')"

text \<open>The info answer for a record that passed the checks; \<open>path\<close> is its \<^verbatim>\<open>path\<close> field.\<close>

definition info_response :: "php \<Rightarrow> fs \<Rightarrow> string \<Rightarrow> jval \<Rightarrow> string \<Rightarrow> response" where
  "info_response lib fs ident meta path =
     (let info =
            [(''id'', coalesce (field meta ''id'') (JStr ident)),
             (''filename'', coalesce (field meta ''filename'') (JStr ''file'')),
             (''size'', coalesce (field meta ''size'')
                          (JNum (if file_exists lib fs path then filesize lib fs path else 0))),
             (''expiresAt'', coalesce (field meta ''expiresAt'') JNull),
             (''uploadedAt'', coalesce (field meta ''uploadedAt'') (JStr []))]
      in if isZipFile path then
           (let zp = buildZipPreview lib fs path 200 in
            json_ok (JObj (info @ [(''isZip'', JBool True),
                                   (''zipContents'', JArr (zipContents zp)),
                                   (''zipTruncated'', JBool (zipTruncated zp))])))
         else
           (case string_arg (Some (coalesce (field meta ''storedName'') (JStr []))) of
              None \<Rightarrow> Fatal
            | Some storedName \<Rightarrow>
                if isZipFile storedName then
                  (let zp = buildZipPreview lib fs path 200 in
                   json_ok (JObj (info @ [(''isZip'', JBool True),
                                          (''zipContents'', JArr (zipContents zp)),
                                          (''zipTruncated'', JBool (zipTruncated zp))])))
                else json_ok (JObj (info @ [(''isZip'', JBool False)]))))"

definition download_response :: "fs \<Rightarrow> jval \<Rightarrow> string \<Rightarrow> response" where
  "download_response fs meta path =
     Download
       [''Content-Type: application/octet-stream'',
        ''Content-Length: '' @ to_string (field meta ''size''),
        ''Content-Disposition: attachment; filename='' @ [CHR 0x22]
           @ to_string (field meta ''filename'') @ [CHR 0x22],
        ''X-Fileshare-Filename: '' @ to_string (field meta ''filename'')]
       (file_get_contents fs path)"

definition handle_get ::
  "php \<Rightarrow> config \<Rightarrow> world \<Rightarrow> string \<Rightarrow> bool \<Rightarrow> fs \<Rightarrow> response \<times> fs \<times> fsop list" where
  "handle_get lib cfg w raw info fs =
     (let ident = sanitize_id raw in
      if \<not> str_truthy ident then (bad_id info, fs, [])
      else
        (let metaPath = meta_path cfg ident in
         if \<not> file_exists lib fs metaPath then (not_found info, fs, [])
         else
           (let meta = json_decode lib (file_get_contents fs metaPath) in
            if \<not> truthy meta \<or> empty_field (field meta ''path'') then
              (not_found info, unlink metaPath fs, [Unlink metaPath])
            else
              (case string_arg (field meta ''path'') of
                 None \<Rightarrow> (Fatal, fs, [])
               | Some path \<Rightarrow>
                   if \<not> file_exists lib fs path then
                     (not_found info, unlink metaPath fs, [Unlink metaPath])
                   else
                     (case date_arg lib (field meta ''expiresAt'') of
                        None \<Rightarrow> (Fatal, fs, [])
                      | Some expires \<Rightarrow>
                          if expires < at_check w then
                            (gone info, unlink metaPath (unlink path fs),
                             [Unlink path, Unlink metaPath])
                          else if info then (info_response lib fs ident meta path, fs, [])
                          else (download_response fs meta path, fs, []))))))"

subsection \<open>The script\<close>

definition run ::
  "php \<Rightarrow> config \<Rightarrow> world \<Rightarrow> request \<Rightarrow> fs \<Rightarrow> response \<times> fs \<times> fsop list" where
  "run lib cfg w req fs =
     (if req_method req = ''OPTIONS'' then (NoContent, fs, [])
      else
        (case cleanupExpired lib (metaDir cfg) (expirationHours cfg) (at_sweep w) fs of
           (Threw, fs1, ops1) \<Rightarrow> (Fatal, fs1, ops1)
         | (Done, fs1, ops1) \<Rightarrow>
             if req_method req = ''POST'' then
               (case handle_post lib cfg w req fs1 of
                  (r, fs2, ops2) \<Rightarrow> (r, fs2, ops1 @ ops2))
             else
               (case get_id req of
                  Some raw \<Rightarrow>
                    if req_method req = ''GET'' then
                      (case handle_get lib cfg w raw (get_info req) fs1 of
                         (r, fs2, ops2) \<Rightarrow> (r, fs2, ops1 @ ops2))
                    else (json_error 405 ''Unsupported request'', fs1, ops1)
                | None \<Rightarrow> (json_error 405 ''Unsupported request'', fs1, ops1))))"

subsection \<open>What the previewer is to return\<close>

text \<open>
  The content entries of an archive, in the order of its directory: every entry
  that is not a placeholder, with its name and its uncompressed size.
\<close>

definition content_entries :: "zentry list \<Rightarrow> jval list" where
  "content_entries es = map preview_entry (filter (\<lambda>e. \<not> is_placeholder e) es)"

subsection \<open>What the sweeper is to do\<close>

text \<open>
  The text of a metadata file is that of an expired record when it decodes to a
  value PHP takes for true whose \<^verbatim>\<open>expiresAt\<close> is not empty and denotes an
  instant before \<open>now\<close>.
\<close>

definition expired :: "php \<Rightarrow> int \<Rightarrow> string \<Rightarrow> bool" where
  "expired lib now text =
     (let data = json_decode lib text in
      truthy data \<and> \<not> empty_field (field data ''expiresAt'')
      \<and> (case date_arg lib (field data ''expiresAt'') of None \<Rightarrow> False | Some e \<Rightarrow> e < now))"

text \<open>
  A malformed record: its text is not JSON (or decodes to a value PHP takes for
  false), or its \<^verbatim>\<open>expiresAt\<close> is missing or empty.
\<close>

definition malformed :: "php \<Rightarrow> string \<Rightarrow> bool" where
  "malformed lib text =
     (let data = json_decode lib text in
      \<not> truthy data \<or> empty_field (field data ''expiresAt''))"

text \<open>The path a record names as the place of its bytes, when it names one.\<close>

definition backing :: "php \<Rightarrow> string \<Rightarrow> string option" where
  "backing lib text =
     (let data = json_decode lib text in
      if empty_field (field data ''path'') then None else string_arg (field data ''path''))"

text \<open>In a list of operations, \<open>a\<close> is performed and \<open>b\<close> is performed later.\<close>

definition precedes :: "'a \<Rightarrow> 'a \<Rightarrow> 'a list \<Rightarrow> bool" where
  "precedes a b xs = (b \<in> set (tl (dropWhile (\<lambda>x. x \<noteq> a) xs)))"

subsection \<open>What the read path takes for a record without bytes\<close>

text \<open>
  The text of a metadata file is that of a record without bytes when it decodes
  to a value PHP takes for false, or its \<^verbatim>\<open>path\<close> is missing or empty, or its
  \<^verbatim>\<open>path\<close> is a string that names nothing that exists: no file of the store
  and no directory.
\<close>

definition dangling :: "php \<Rightarrow> fs \<Rightarrow> string \<Rightarrow> bool" where
  "dangling lib fs text =
     (let data = json_decode lib text in
      \<not> truthy data \<or> empty_field (field data ''path'')
      \<or> (case string_arg (field data ''path'') of None \<Rightarrow> False | Some p \<Rightarrow> \<not> file_exists lib fs p))"

subsection \<open>What an upload is to leave behind\<close>

text \<open>
  The record of an accepted upload: \<^verbatim>\<open>$meta\<close> as it is built when the payload
  lies at the target path.
\<close>

definition record_written :: "php \<Rightarrow> config \<Rightarrow> world \<Rightarrow> upload \<Rightarrow> jval" where
  "record_written lib cfg w u =
     upload_meta lib cfg w u
       [(target_path cfg (stored_name (new_id w) (original_name u)), upl_tmp u)]"

subsection \<open>Example data\<close>

text \<open>
  Concrete inputs on which the theorems below are instantiated: a configuration,
  a library whose functions are given by small tables, uploads and stores.
\<close>

definition demo_cfg :: config where
  "demo_cfg = config_in ''/srv''"

text \<open>The directories of the examples: the upload and the metadata directory.\<close>

definition demo_dirs :: "string \<Rightarrow> int option" where
  "demo_dirs p = (if p = ''/srv/uploads'' \<or> p = ''/srv/uploads/meta'' then Some 4096 else None)"

text \<open>A library that decodes no text, parses no date and opens no archive.\<close>

definition null_lib :: php where
  "null_lib =
     \<lparr> json_encode = (\<lambda>v. []), json_decode = (\<lambda>s. JNull),
       date_atom = (\<lambda>t. []), date_parse = (\<lambda>s. None),
       zip_loaded = False, zip_open = (\<lambda>b. None), dir_size = demo_dirs \<rparr>"

definition demo_upload :: upload where
  "demo_upload = \<lparr> upl_name = ''my file(1).txt'', upl_error = 0, upl_size = 5, upl_tmp = ''hello'' \<rparr>"

definition demo_post :: request where
  "demo_post =
     \<lparr> req_method = ''POST'', post_action = Some ''upload'', files_file = Some demo_upload,
       get_id = None, get_info = False, base_url = ''http://localhost/fileShare.php'' \<rparr>"

definition demo_world :: world where
  "demo_world =
     \<lparr> at_sweep = 10 * second, at_expiry = 10 * second, at_stamp = 10 * second,
       at_check = 10 * second, random_bytes = [CHR 0x00, CHR 0xab, CHR 0x7f, CHR 0x10, CHR 0xff, CHR 0x42],
       move_ok = True \<rparr>"

text \<open>An archive of a folder, two files and an entry whose name cannot be read.\<close>

definition demo_entries :: "zentry list" where
  "demo_entries =
     [\<lparr> zname = Some ''docs/'', zsize = Some 0 \<rparr>,
      \<lparr> zname = Some ''docs/a.txt'', zsize = Some 3 \<rparr>,
      \<lparr> zname = None, zsize = None \<rparr>,
      \<lparr> zname = Some ''b.bin'', zsize = None \<rparr>]"

definition demo_file_entry :: zentry where
  "demo_file_entry = \<lparr> zname = Some ''f'', zsize = Some 1 \<rparr>"

text \<open>A library whose \<^verbatim>\<open>ZipArchive\<close> reads the given directory from the bytes \<^verbatim>\<open>PK\<close>.\<close>

definition zip_lib :: "zentry list \<Rightarrow> php" where
  "zip_lib es = null_lib \<lparr> zip_loaded := True, zip_open := (\<lambda>b. if b = ''PK'' then Some es else None) \<rparr>"

definition zip_store :: fs where
  "zip_store = [(''/srv/uploads/00ab7f10ff42__a.zip'', ''PK''), (''/srv/uploads/00ab7f10ff42__a.txt'', ''hello'')]"

definition demo_get :: "string \<Rightarrow> bool \<Rightarrow> request" where
  "demo_get raw info =
     \<lparr> req_method = ''GET'', post_action = None, files_file = None,
       get_id = Some raw, get_info = info, base_url = ''http://localhost/fileShare.php'' \<rparr>"

text \<open>
  A library given by two tables: the JSON texts it knows with their values, and
  the date texts it knows with their instants. Every other text decodes to null
  and parses as no date.
\<close>

definition table_lib :: "(string \<times> jval) list \<Rightarrow> (string \<times> int) list \<Rightarrow> php" where
  "table_lib texts dates =
     \<lparr> json_encode = (\<lambda>v. case find (\<lambda>(t, x). x = v) texts of None \<Rightarrow> [] | Some (t, x) \<Rightarrow> t),
       json_decode = (\<lambda>s. case map_of texts s of None \<Rightarrow> JNull | Some v \<Rightarrow> v),
       date_atom = (\<lambda>t. case find (\<lambda>(s, i). i = t div second * second) dates of
                          None \<Rightarrow> [] | Some (s, i) \<Rightarrow> s),
       date_parse = map_of dates,
       zip_loaded = False, zip_open = (\<lambda>b. None), dir_size = demo_dirs \<rparr>"

definition stored_record :: "string \<Rightarrow> string \<Rightarrow> string \<Rightarrow> jval" where
  "stored_record ident name stamp =
     JObj [(''id'', JStr ident), (''filename'', JStr name),
           (''storedName'', JStr (ident @ ''__'' @ name)),
           (''path'', JStr (''/srv/uploads/'' @ ident @ ''__'' @ name)),
           (''size'', JNum 5), (''expiresAt'', JStr stamp), (''uploadedAt'', JStr ''T0'')]"

text \<open>
  The records of the examples: \<^verbatim>\<open>aa\<close> expires 100 seconds after the epoch,
  \<^verbatim>\<open>bb\<close> and \<^verbatim>\<open>cc\<close> after 200; \<open>D\<close> names a metadata file as its path; \<open>N\<close> has
  no \<^verbatim>\<open>expiresAt\<close>; \<open>P\<close> names a directory as its path, \<open>Q\<close> a number; the
  \<^verbatim>\<open>expiresAt\<close> of \<open>X\<close> is no date; \<open>U\<close> is the record the example upload
  writes, \<open>V\<close> the one it writes when the clock shows the next second between
  its two readings, \<open>U2\<close> the one written for the same upload ten seconds later, \<open>W\<close> the one written for an upload whose file name PHP
  takes for empty, and \<open>E\<close> the one written for an empty payload.
\<close>

definition demo_texts :: "(string \<times> jval) list" where
  "demo_texts =
     [(''A'', stored_record ''aa'' ''a.txt'' ''T100''),
      (''B'', stored_record ''bb'' ''b.txt'' ''T200''),
      (''C'', stored_record ''cc'' ''c.txt'' ''T200''),
      (''D'', JObj [(''expiresAt'', JStr ''T100''), (''path'', JStr ''/srv/uploads/meta/xx.json'')]),
      (''N'', JObj [(''path'', JStr ''/srv/uploads/nn__n.txt'')]),
      (''P'', JObj [(''id'', JStr ''pp''), (''filename'', JStr ''p.txt''),
                   (''path'', JStr ''/srv/uploads''), (''size'', JNum 5),
                   (''expiresAt'', JStr ''T200'')]),
      (''Q'', JObj [(''path'', JNum 5), (''expiresAt'', JStr ''T200'')]),
      (''X'', JObj [(''path'', JStr ''/srv/uploads/zz__z.txt''), (''expiresAt'', JStr ''soon'')]),
      (''U'', JObj [(''id'', JStr ''00ab7f10ff42''), (''filename'', JStr ''my file(1).txt''),
                   (''storedName'', JStr ''00ab7f10ff42__my_file_1_.txt''),
                   (''path'', JStr ''/srv/uploads/00ab7f10ff42__my_file_1_.txt''),
                   (''size'', JNum 5), (''expiresAt'', JStr ''T172810''),
                   (''uploadedAt'', JStr ''T10'')]),
      (''V'', JObj [(''id'', JStr ''00ab7f10ff42''), (''filename'', JStr ''my file(1).txt''),
                   (''storedName'', JStr ''00ab7f10ff42__my_file_1_.txt''),
                   (''path'', JStr ''/srv/uploads/00ab7f10ff42__my_file_1_.txt''),
                   (''size'', JNum 5), (''expiresAt'', JStr ''T172809''),
                   (''uploadedAt'', JStr ''T10'')]),
      (''U2'', JObj [(''id'', JStr ''00ab7f10ff42''), (''filename'', JStr ''my file(1).txt''),
                    (''storedName'', JStr ''00ab7f10ff42__my_file_1_.txt''),
                    (''path'', JStr ''/srv/uploads/00ab7f10ff42__my_file_1_.txt''),
                    (''size'', JNum 5), (''expiresAt'', JStr ''T172820''),
                    (''uploadedAt'', JStr ''T20'')]),
      (''W'', JObj [(''id'', JStr ''00ab7f10ff42''), (''filename'', JStr ''fileshare.bin''),
                   (''storedName'', JStr ''00ab7f10ff42__fileshare.bin''),
                   (''path'', JStr ''/srv/uploads/00ab7f10ff42__fileshare.bin''),
                   (''size'', JNum 5), (''expiresAt'', JStr ''T172810''),
                   (''uploadedAt'', JStr ''T10'')]),
      (''E'', JObj [(''id'', JStr ''00ab7f10ff42''), (''filename'', JStr ''e.txt''),
                   (''storedName'', JStr ''00ab7f10ff42__e.txt''),
                   (''path'', JStr ''/srv/uploads/00ab7f10ff42__e.txt''),
                   (''size'', JNum 0), (''expiresAt'', JStr ''T172810''),
                   (''uploadedAt'', JStr ''T10'')])]"

definition demo_dates :: "(string \<times> int) list" where
  "demo_dates =
     [(''T0'', 0), (''T10'', 10 * second), (''T20'', 20 * second), (''T100'', 100 * second),
      (''T200'', 200 * second), (''T172809'', 172809 * second), (''T172810'', 172810 * second),
      (''T172820'', 172820 * second)]"

definition demo_lib :: php where
  "demo_lib = table_lib demo_texts demo_dates"

text \<open>Two complete records.\<close>

definition store_ab :: fs where
  "store_ab =
     [(''/srv/uploads/meta/bb.json'', ''B''), (''/srv/uploads/bb__b.txt'', ''world''),
      (''/srv/uploads/meta/aa.json'', ''A''), (''/srv/uploads/aa__a.txt'', ''hello'')]"

text \<open>A record whose bytes are gone, and bytes that have no record.\<close>

definition store_partial :: fs where
  "store_partial =
     [(''/srv/uploads/meta/cc.json'', ''C''), (''/srv/uploads/dd__d.txt'', ''bytes'')]"

text \<open>An expired record that names the metadata file of an unreadable one as its path.\<close>

definition store_alias :: fs where
  "store_alias =
     [(''/srv/uploads/meta/dd.json'', ''D''), (''/srv/uploads/meta/xx.json'', ''?'')]"

text \<open>An unreadable record, one without \<^verbatim>\<open>expiresAt\<close> and an expired one.\<close>

definition store_mal :: fs where
  "store_mal =
     [(''/srv/uploads/meta/xx.json'', ''?''), (''/srv/uploads/meta/nn.json'', ''N''),
      (''/srv/uploads/nn__n.txt'', ''bytes''),
      (''/srv/uploads/meta/aa.json'', ''A''), (''/srv/uploads/aa__a.txt'', ''hello'')]"

text \<open>A record whose path is the upload directory.\<close>

definition store_dir :: fs where
  "store_dir = [(''/srv/uploads/meta/pp.json'', ''P'')]"

text \<open>A record whose path is a number, and one whose \<^verbatim>\<open>expiresAt\<close> is no date.\<close>

definition store_num :: fs where
  "store_num = [(''/srv/uploads/meta/qq.json'', ''Q'')]"

definition store_soon :: fs where
  "store_soon = [(''/srv/uploads/meta/zz.json'', ''X'')]"

text \<open>
  An upload of no bytes, uploads whose file name is empty or \<^verbatim>\<open>0\<close>, one of
  exactly 1 GiB, and a second upload under the name of the first.
\<close>

definition empty_upload :: upload where
  "empty_upload = \<lparr> upl_name = ''e.txt'', upl_error = 0, upl_size = 0, upl_tmp = [] \<rparr>"

definition nameless_upload :: upload where
  "nameless_upload = \<lparr> upl_name = [], upl_error = 0, upl_size = 5, upl_tmp = ''hello'' \<rparr>"


definition other_upload :: upload where
  "other_upload = \<lparr> upl_name = ''my file(1).txt'', upl_error = 0, upl_size = 5, upl_tmp = ''other'' \<rparr>"

definition full_upload :: upload where
  "full_upload =
     \<lparr> upl_name = ''big.bin'', upl_error = 0, upl_size = 1073741824,
       upl_tmp = replicate 1073741824 (CHR ''x'') \<rparr>"

definition post_of :: "upload option \<Rightarrow> request" where
  "post_of u = demo_post \<lparr> files_file := u \<rparr>"

text \<open>
  A request ten seconds after the example upload that draws the same random
  bytes.
\<close>

definition again_world :: world where
  "again_world =
     demo_world \<lparr> at_sweep := 20 * second, at_expiry := 20 * second, at_stamp := 20 * second,
                  at_check := 20 * second \<rparr>"

text \<open>
  An upload during which a second begins: \<^verbatim>\<open>expiresAt\<close> is computed a
  microsecond before the clock shows 10 seconds, \<^verbatim>\<open>uploadedAt\<close> is read when it
  shows them.
\<close>

definition straddle_world :: world where
  "straddle_world =
     demo_world \<lparr> at_sweep := 10 * second - 10, at_expiry := 10 * second - 1,
                  at_stamp := 10 * second \<rparr>"

text \<open>The clock of a request that starts 150 seconds after the epoch.\<close>

definition later_world :: world where
  "later_world = demo_world \<lparr> at_sweep := 150 * second, at_check := 150 * second \<rparr>"

section \<open>Properties\<close>

subsection \<open>Identifiers and stored names\<close>

lemma hex_digit_mem: "hex_digit n \<in> set ''0123456789abcdef''"
  unfolding hex_digit_def by (rule nth_mem) simp

lemma is_hex_hex_digit: "is_hex (hex_digit n)"
proof -
  have "\<forall>c \<in> set ''0123456789abcdef''. is_hex c"
    by (simp add: is_hex_def is_digit_def)
  then show ?thesis using hex_digit_mem by blast
qed

lemma is_hex_bin2hex: "c \<in> set (bin2hex bs) \<Longrightarrow> is_hex c"
  by (auto simp: bin2hex_def hex_byte_def is_hex_hex_digit)

lemma is_hex_alnum: "is_hex c \<Longrightarrow> is_alnum c"
  by (auto simp: is_hex_def is_alnum_def is_digit_def is_lower_def)

lemma is_alnum_safe: "is_alnum c \<Longrightarrow> is_safe c"
  by (auto simp: is_alnum_def is_safe_def)

lemma is_safe_not_slash: "is_safe c \<Longrightarrow> c \<noteq> CHR ''/''"
  by (auto simp: is_safe_def is_upper_def is_lower_def is_digit_def)

lemma hex_digit_inj: "m < 16 \<Longrightarrow> n < 16 \<Longrightarrow> hex_digit m = hex_digit n \<Longrightarrow> m = n"
proof -
  assume a: "m < 16" "n < 16" "hex_digit m = hex_digit n"
  have d: "distinct ''0123456789abcdef''" by simp
  have l: "length ''0123456789abcdef'' = 16" by simp
  from a have "''0123456789abcdef'' ! m = ''0123456789abcdef'' ! n"
    by (simp add: hex_digit_def)
  with d l a show "m = n" by (metis nth_eq_iff_index_eq)
qed

lemma of_char_lt_256: "(of_char c :: nat) < 256"
proof -
  have "(of_char c :: nat) mod 256 = of_char c" by (rule of_char_mod_256)
  moreover have "(of_char c :: nat) mod 256 < 256" by simp
  ultimately show ?thesis by simp
qed

lemma hex_byte_inj: "hex_byte c = hex_byte d \<Longrightarrow> c = d"
proof -
  assume "hex_byte c = hex_byte d"
  then have h: "hex_digit ((of_char c :: nat) div 16) = hex_digit ((of_char d :: nat) div 16)"
    and l: "hex_digit ((of_char c :: nat) mod 16) = hex_digit ((of_char d :: nat) mod 16)"
    by (simp_all add: hex_byte_def)
  have b: "(of_char c :: nat) div 16 < 16" "(of_char d :: nat) div 16 < 16"
    using of_char_lt_256 [of c] of_char_lt_256 [of d] by (simp_all add: div_less_iff_less_mult)
  have hd: "(of_char c :: nat) div 16 = of_char d div 16"
    using b h by (rule hex_digit_inj)
  have "(of_char c :: nat) mod 16 = of_char d mod 16"
    using l by (intro hex_digit_inj) simp_all
  with hd have "(of_char c :: nat) = of_char d"
    by (metis div_mult_mod_eq)
  then show "c = d" by simp
qed

lemma bin2hex_inj: "bin2hex r = bin2hex r' \<Longrightarrow> r = r'"
proof (induction r arbitrary: r')
  case Nil
  then show ?case by (cases r') (simp_all add: bin2hex_def hex_byte_def)
next
  case (Cons c r)
  show ?case
  proof (cases r')
    case Nil
    with Cons.prems show ?thesis by (simp add: bin2hex_def hex_byte_def)
  next
    case (Cons d r'')
    with Cons.prems have "hex_byte c @ bin2hex r = hex_byte d @ bin2hex r''"
      by (simp add: bin2hex_def)
    moreover have "length (hex_byte c) = length (hex_byte d)" by (simp add: hex_byte_def)
    ultimately have "hex_byte c = hex_byte d" "bin2hex r = bin2hex r''" by simp_all
    with Cons.IH Cons show ?thesis by (simp add: hex_byte_inj)
  qed
qed

lemma sanitize_name_safe: "c \<in> set (sanitize_name n) \<Longrightarrow> is_safe c"
  by (auto simp: sanitize_name_def is_safe_def)

lemma str_truthy_sanitize: "str_truthy n \<Longrightarrow> str_truthy (sanitize_name n)"
  by (cases n) (auto simp: str_truthy_def sanitize_name_def is_safe_def is_digit_def split: if_splits)

lemma str_truthy_original: "str_truthy (original_name u)"
  by (simp add: original_name_def or_default_def str_truthy_def)

lemma stored_name_eq:
  "stored_name i (original_name u) = i @ ''__'' @ sanitize_name (original_name u)"
  by (simp add: stored_name_def or_default_def str_truthy_sanitize str_truthy_original)

text \<open>The two character classes, spelled out.\<close>

lemma is_alnum_chars:
  "is_alnum c = (c \<in> set ''abcdefghijklmnopqrstuvwxyzABCDEFGHIJKLMNOPQRSTUVWXYZ0123456789'')"
proof -
  have "\<forall>c \<in> set (Enum.enum :: char list).
     is_alnum c = (c \<in> set ''abcdefghijklmnopqrstuvwxyzABCDEFGHIJKLMNOPQRSTUVWXYZ0123456789'')"
    by code_simp
  then show ?thesis by (simp add: enum_UNIV)
qed

lemma is_safe_chars:
  "is_safe c = (c \<in> set ''ABCDEFGHIJKLMNOPQRSTUVWXYZabcdefghijklmnopqrstuvwxyz0123456789_.-'')"
proof -
  have "\<forall>c \<in> set (Enum.enum :: char list).
     is_safe c = (c \<in> set ''ABCDEFGHIJKLMNOPQRSTUVWXYZabcdefghijklmnopqrstuvwxyz0123456789_.-'')"
    by code_simp
  then show ?thesis by (simp add: enum_UNIV)
qed

subsection \<open>The example data evaluated\<close>

lemma demo_cfg_dirs:
  "rtrim_slash (metaDir demo_cfg) = ''/srv/uploads/meta''"
  "rtrim_slash (uploadDir demo_cfg) = ''/srv/uploads''"
  "metaDir demo_cfg = ''/srv/uploads/meta''"
  "expirationHours demo_cfg = 48"
  "maxSize demo_cfg = 1073741824"
  by (simp_all add: demo_cfg_def config_in_def rtrim_slash_def)

lemma sweep_zip_store:
  "cleanupExpired lib ''/srv/uploads/meta'' h now zip_store = (Done, zip_store, [])"
  by (simp add: cleanupExpired_def glob_json_def zip_store_def meta_pattern_def rtrim_slash_def)

lemma store_ab_facts:
  "glob_json ''/srv/uploads/meta'' store_ab = [''/srv/uploads/meta/aa.json'', ''/srv/uploads/meta/bb.json'']"
  "file_get_contents store_ab ''/srv/uploads/meta/aa.json'' = ''A''"
  "file_get_contents store_ab ''/srv/uploads/meta/bb.json'' = ''B''"
  "file_exists demo_lib store_ab ''/srv/uploads/aa__a.txt''"
  "map_of store_ab ''/srv/uploads/meta/bb.json'' = Some ''B''"
  "map_of store_ab ''/srv/uploads/bb__b.txt'' = Some ''world''"
  by code_simp+

lemma demo_lib_facts:
  "json_decode demo_lib [] = JNull"
  "expired demo_lib (150 * second) ''A''"
  "\<not> expired demo_lib (150 * second) ''B''"
  "backing demo_lib ''A'' = Some ''/srv/uploads/aa__a.txt''"
  "backing demo_lib ''B'' = Some ''/srv/uploads/bb__b.txt''"
  by code_simp+

lemma store_mal_facts:
  "glob_json ''/srv/uploads/meta'' store_mal =
     [''/srv/uploads/meta/aa.json'', ''/srv/uploads/meta/nn.json'', ''/srv/uploads/meta/xx.json'']"
  "file_get_contents store_mal ''/srv/uploads/meta/aa.json'' = ''A''"
  "file_get_contents store_mal ''/srv/uploads/meta/nn.json'' = ''N''"
  "file_get_contents store_mal ''/srv/uploads/meta/xx.json'' = ''?''"
  "file_exists demo_lib store_mal ''/srv/uploads/meta/xx.json''"
  "map_of store_mal ''/srv/uploads/meta/nn.json'' = Some ''N''"
  "map_of store_mal ''/srv/uploads/meta/xx.json'' = Some ''?''"
  "map_of store_mal ''/srv/uploads/nn__n.txt'' = Some ''bytes''"
  by code_simp+

lemma demo_lib_malformed:
  "malformed demo_lib ''N''" "malformed demo_lib ''?''"
  "\<not> expired demo_lib (150 * second) ''N''" "\<not> expired demo_lib (150 * second) ''?''"
  "backing demo_lib ''N'' = Some ''/srv/uploads/nn__n.txt''"
  "dangling demo_lib store_mal ''?''"
  by code_simp+

lemma demo_ids:
  "sanitize_id ''xx'' = ''xx''" "str_truthy ''xx''"
  "meta_path demo_cfg ''xx'' = ''/srv/uploads/meta/xx.json''"
  "sanitize_id ''aa'' = ''aa''" "str_truthy ''aa''"
  "meta_path demo_cfg ''aa'' = ''/srv/uploads/meta/aa.json''"
  "sanitize_id ''cc'' = ''cc''" "str_truthy ''cc''"
  "meta_path demo_cfg ''cc'' = ''/srv/uploads/meta/cc.json''"
  "sanitize_id ''dd'' = ''dd''" "str_truthy ''dd''"
  "meta_path demo_cfg ''dd'' = ''/srv/uploads/meta/dd.json''"
  by code_simp+

lemma demo_world_facts:
  "new_id demo_world = ''00ab7f10ff42''" "move_ok demo_world"
  "expires_at demo_lib demo_cfg demo_world = ''T172810''"
  "at_sweep demo_world = 10 * second"
  "new_id later_world = ''00ab7f10ff42''"
  "at_sweep later_world = 150 * second" "at_check later_world = 150 * second"
  "meta_path demo_cfg ''00ab7f10ff42'' = ''/srv/uploads/meta/00ab7f10ff42.json''"
  by code_simp+

lemma sweep_store_ab_early:
  "cleanupExpired demo_lib (metaDir demo_cfg) (expirationHours demo_cfg) (at_sweep demo_world)
     store_ab = (Done, store_ab, [])"
  by code_simp

lemma post_of_facts:
  "req_method (post_of u) = ''POST''" "post_action (post_of u) = Some ''upload''"
  "files_file (post_of u) = u" "base_url (post_of u) = ''http://localhost/fileShare.php''"
  by (simp_all add: post_of_def demo_post_def)

subsection \<open>Files\<close>

lemma map_of_unlink [simp]: "map_of (unlink p fs) q = (if q = p then None else map_of fs q)"
  by (simp add: unlink_def delete_conv)

lemma map_of_put [simp]:
  "map_of (file_put_contents p s fs) q = (if q = p then Some s else map_of fs q)"
  by (simp add: file_put_contents_def update_conv)

lemma is_file_unlink [simp]: "is_file (unlink p fs) q = (q \<noteq> p \<and> is_file fs q)"
  by (simp add: is_file_def)

lemma is_file_put [simp]: "is_file (file_put_contents p s fs) q = (q = p \<or> is_file fs q)"
  by (simp add: is_file_def)

lemma is_file_exists: "is_file fs p \<Longrightarrow> file_exists lib fs p"
  by (simp add: file_exists_def)

lemma not_exists_missing: "\<not> file_exists lib fs p \<Longrightarrow> map_of fs p = None"
  by (simp add: file_exists_def is_file_def)

lemma file_exists_same:
  "map_of fs1 q = map_of fs q \<Longrightarrow> file_exists lib fs1 q = file_exists lib fs q"
  by (simp add: file_exists_def is_file_def)

lemma contents_put [simp]:
  "file_get_contents (file_put_contents p s fs) q = (if q = p then s else file_get_contents fs q)"
  by (simp add: file_get_contents_def)

lemma contents_same: "map_of fs1 q = map_of fs q \<Longrightarrow> file_get_contents fs1 q = file_get_contents fs q"
  by (simp add: file_get_contents_def)

lemma contents_missing: "map_of fs q = None \<Longrightarrow> file_get_contents fs q = []"
  by (simp add: file_get_contents_def)

lemma set_glob_json: "set (glob_json dir fs) = {p \<in> fst ` set fs. meta_pattern dir p}"
  by (auto simp: glob_json_def)

lemma glob_json_exists: "m \<in> set (glob_json dir fs) \<Longrightarrow> is_file fs m"
  by (auto simp: set_glob_json is_file_def map_of_eq_None_iff)


subsection \<open>The upload branch\<close>

lemma handle_post_accepted:
  assumes "post_action req = Some ''upload''" "files_file req = Some u" "upl_error u = 0"
    "upl_size u \<le> maxSize cfg" "move_ok w"
  shows "handle_post lib cfg w req fs =
     (let ident = new_id w;
          targetPath = target_path cfg (stored_name ident (original_name u));
          fs1 = file_put_contents targetPath (upl_tmp u) fs;
          meta = upload_meta lib cfg w u fs1
      in (json_ok
            (JObj [(''id'', JStr ident),
                   (''filename'', JStr (original_name u)),
                   (''downloadUrl'', JStr (base_url req @ ''?id='' @ ident)),
                   (''expiresAt'', JStr (expires_at lib cfg w)),
                   (''size'', coalesce (field meta ''size'') JNull)]),
          file_put_contents (meta_path cfg ident) (json_encode lib meta) fs1,
          [Write targetPath, Write (meta_path cfg ident)]))"
  using assms by (simp add: handle_post_def Let_def)

lemma stored_name_safe: "list_all is_safe (new_id w @ ''__'' @ sanitize_name n)"
  by (auto simp: list_all_iff new_id_def sanitize_name_safe
      intro: is_alnum_safe is_hex_alnum is_hex_bin2hex)
    (simp add: is_safe_def)+

lemma run_post:
  assumes "req_method req = ''POST''"
    and "cleanupExpired lib (metaDir cfg) (expirationHours cfg) (at_sweep w) fs = (Done, fs1, ops1)"
  shows "run lib cfg w req fs =
     (case handle_post lib cfg w req fs1 of (r, fs2, ops2) \<Rightarrow> (r, fs2, ops1 @ ops2))"
  using assms by (simp add: run_def)


lemma upload_meta_written:
  "upload_meta lib cfg w u
     (file_put_contents (target_path cfg (stored_name (new_id w) (original_name u))) (upl_tmp u) fs)
   = record_written lib cfg w u"
  by (simp add: upload_meta_def record_written_def Let_def filesize_def file_get_contents_def)

lemma record_written_fields:
  "truthy (record_written lib cfg w u)"
  "field (record_written lib cfg w u) ''path'' =
     Some (JStr (target_path cfg (stored_name (new_id w) (original_name u))))"
  "field (record_written lib cfg w u) ''expiresAt'' = Some (JStr (expires_at lib cfg w))"
  "field (record_written lib cfg w u) ''filename'' = Some (JStr (original_name u))"
  "field (record_written lib cfg w u) ''size'' = Some (JNum (int (length (upl_tmp u))))"
  by (simp_all add: record_written_def upload_meta_def Let_def filesize_def file_get_contents_def)

lemma after_last_append:
  assumes "c \<notin> set x"
  shows "after_last c (d @ c # x) = x"
proof -
  from assms
  have "takeWhile (\<lambda>y. y \<noteq> c) (rev x @ c # rev d) =
      rev x @ takeWhile (\<lambda>y. y \<noteq> c) (c # rev d)"
    by (intro takeWhile_append2) auto
  then show ?thesis by (simp add: after_last_def)
qed

text \<open>The target path of an upload is never the metadata file of its id.\<close>

lemma target_not_meta:
  "target_path cfg (stored_name (new_id w) (original_name u)) \<noteq> meta_path cfg (new_id w)"
proof
  let ?i = "new_id w"
  let ?s = "sanitize_name (original_name u)"
  assume eq: "target_path cfg (stored_name ?i (original_name u)) = meta_path cfg ?i"
  have i: "CHR ''/'' \<notin> set ?i"
    using is_hex_bin2hex is_hex_alnum is_alnum_safe is_safe_not_slash
    unfolding new_id_def by blast
  have s: "CHR ''/'' \<notin> set ?s"
    using sanitize_name_safe is_safe_not_slash by blast
  have "after_last CHR ''/'' (rtrim_slash (uploadDir cfg) @ CHR ''/'' # (?i @ ''__'' @ ?s))
      = ?i @ ''__'' @ ?s"
    using i s by (intro after_last_append) simp
  moreover have "after_last CHR ''/'' (rtrim_slash (metaDir cfg) @ CHR ''/'' # (?i @ ''.json''))
      = ?i @ ''.json''"
    using i by (intro after_last_append) simp
  ultimately have "?i @ ''__'' @ ?s = ?i @ ''.json''"
    using eq by (simp add: target_path_def meta_path_def stored_name_eq)
  then show False by simp
qed




text \<open>An upload request is answered 200 only when the sweep completes and the upload is accepted.\<close>

lemma run_post_ok:
  assumes "req_method req = ''POST''" and "files_file req = Some u"
    and "run lib cfg w req fs = (json_ok d, fs2, ops)"
  shows "fst (cleanupExpired lib (metaDir cfg) (expirationHours cfg) (at_sweep w) fs) = Done
    \<and> post_action req = Some ''upload'' \<and> upl_error u = 0 \<and> upl_size u \<le> maxSize cfg \<and> move_ok w"
proof (cases "cleanupExpired lib (metaDir cfg) (expirationHours cfg) (at_sweep w) fs")
  case (fields r fs1 ops1)
  show ?thesis
  proof (cases r)
    case Threw
    with fields assms show ?thesis by (simp add: run_def json_ok_def)
  next
    case Done
    with fields assms(1) have r: "run lib cfg w req fs =
        (case handle_post lib cfg w req fs1 of (r, fs2, ops2) \<Rightarrow> (r, fs2, ops1 @ ops2))"
      by (simp add: run_post)
    from assms(3) [unfolded r] assms(2) have "post_action req = Some ''upload'' \<and> upl_error u = 0
        \<and> upl_size u \<le> maxSize cfg \<and> move_ok w"
      by (auto simp: handle_post_def json_error_def json_ok_def Let_def
          split: option.splits if_splits)
    with fields Done show ?thesis by simp
  qed
qed

text \<open>What an accepted upload leaves: the answer, the store and the operations.\<close>

lemma run_post_accepted:
  assumes "req_method req = ''POST''" and "post_action req = Some ''upload''"
    and "files_file req = Some u" and "upl_error u = 0" and "upl_size u \<le> maxSize cfg"
    and "move_ok w"
    and "cleanupExpired lib (metaDir cfg) (expirationHours cfg) (at_sweep w) fs = (Done, fs1, ops1)"
  shows "run lib cfg w req fs =
     (json_ok (JObj [(''id'', JStr (new_id w)),
                     (''filename'', JStr (original_name u)),
                     (''downloadUrl'', JStr (base_url req @ ''?id='' @ new_id w)),
                     (''expiresAt'', JStr (expires_at lib cfg w)),
                     (''size'', JNum (int (length (upl_tmp u))))]),
      file_put_contents (meta_path cfg (new_id w)) (json_encode lib (record_written lib cfg w u))
        (file_put_contents (target_path cfg (stored_name (new_id w) (original_name u)))
           (upl_tmp u) fs1),
      ops1 @ [Write (target_path cfg (stored_name (new_id w) (original_name u))),
              Write (meta_path cfg (new_id w))])"
  by (simp add: run_post [OF assms(1,7)] handle_post_accepted [OF assms(2-6)] Let_def
      upload_meta_written record_written_fields coalesce_def)

subsection \<open>The archive preview\<close>

lemma zip_scan_take:
  "int (length acc) < limit \<Longrightarrow>
   zip_scan limit es acc =
     (take (nat limit) (acc @ content_entries es), nat limit < length (acc @ content_entries es))"
proof (induction es arbitrary: acc)
  case Nil
  then show ?case by (simp add: content_entries_def)
next
  case (Cons e rest)
  show ?case
  proof (cases "is_placeholder e")
    case True
    with Cons show ?thesis by (simp add: content_entries_def)
  next
    case False
    show ?thesis
    proof (cases "limit \<le> int (length (acc @ [preview_entry e]))")
      case True
      with Cons.prems have len: "nat limit = Suc (length acc)" by simp
      have ex: "list_ex (\<lambda>x. \<not> is_placeholder x) rest = (filter (\<lambda>x. \<not> is_placeholder x) rest \<noteq> [])"
        by (simp add: list_ex_iff filter_empty_conv)
      from False True len ex show ?thesis
        by (simp add: content_entries_def Let_def)
    next
      case limit: False
      then have "int (length (acc @ [preview_entry e])) < limit" by simp
      from Cons.IH [OF this] False limit show ?thesis
        by (simp add: content_entries_def Let_def)
    qed
  qed
qed

text \<open>
  Claim C5. For a positive limit, \<^verbatim>\<open>buildZipPreview\<close> returns the first \<open>limit\<close>
  content entries of the archive's directory, in its order and without the
  placeholders, and reports truncation exactly when the archive has more content
  entries than that; a missing file, a directory, a missing zip extension or a
  file that does not open as an archive give the empty list and no truncation. With the limit
  of 200, an archive of 500 content entries gives 200 entries and truncation, one
  of 50 gives 50 entries and none, and no answer has more than 200 entries.
\<close>

theorem buildZipPreview_spec:
  assumes "0 < limit"
  shows "buildZipPreview lib fs p limit =
           (if is_file fs p \<and> zip_loaded lib then
              (case zip_open lib (file_get_contents fs p) of
                 None \<Rightarrow> \<lparr> zipContents = [], zipTruncated = False \<rparr>
               | Some es \<Rightarrow>
                   \<lparr> zipContents = take (nat limit) (content_entries es),
                     zipTruncated = (nat limit < length (content_entries es)) \<rparr>)
            else \<lparr> zipContents = [], zipTruncated = False \<rparr>)
    \<and> length (zipContents (buildZipPreview lib fs p 200)) \<le> 200
    \<and> (is_file fs p \<and> zip_loaded lib \<and> zip_open lib (file_get_contents fs p) = Some es
         \<and> length (content_entries es) = 500 \<longrightarrow>
           length (zipContents (buildZipPreview lib fs p 200)) = 200
           \<and> zipTruncated (buildZipPreview lib fs p 200))
    \<and> (is_file fs p \<and> zip_loaded lib \<and> zip_open lib (file_get_contents fs p) = Some es
         \<and> length (content_entries es) = 50 \<longrightarrow>
           length (zipContents (buildZipPreview lib fs p 200)) = 50
           \<and> \<not> zipTruncated (buildZipPreview lib fs p 200))"
proof -
  have eq: "buildZipPreview lib fs p l =
           (if is_file fs p \<and> zip_loaded lib then
              (case zip_open lib (file_get_contents fs p) of
                 None \<Rightarrow> \<lparr> zipContents = [], zipTruncated = False \<rparr>
               | Some es \<Rightarrow>
                   \<lparr> zipContents = take (nat l) (content_entries es),
                     zipTruncated = (nat l < length (content_entries es)) \<rparr>)
            else \<lparr> zipContents = [], zipTruncated = False \<rparr>)" if "0 < l" for l
    using that
    by (simp add: buildZipPreview_def file_exists_def is_file_def file_get_contents_def
          zip_scan_take split: option.split)
  have "length (zipContents (buildZipPreview lib fs p 200)) \<le> 200"
    by (simp add: eq split: option.split)
  moreover have "is_file fs p \<and> zip_loaded lib \<and> zip_open lib (file_get_contents fs p) = Some es
         \<and> length (content_entries es) = 500 \<longrightarrow>
           length (zipContents (buildZipPreview lib fs p 200)) = 200
           \<and> zipTruncated (buildZipPreview lib fs p 200)"
    by (simp add: eq)
  moreover have "is_file fs p \<and> zip_loaded lib \<and> zip_open lib (file_get_contents fs p) = Some es
         \<and> length (content_entries es) = 50 \<longrightarrow>
           length (zipContents (buildZipPreview lib fs p 200)) = 50
           \<and> \<not> zipTruncated (buildZipPreview lib fs p 200)"
    by (simp add: eq)
  ultimately show ?thesis using eq [OF assms] by blast
qed

lemma zip_store_facts:
  "is_file zip_store ''/srv/uploads/00ab7f10ff42__a.zip''"
  "file_get_contents zip_store ''/srv/uploads/00ab7f10ff42__a.zip'' = ''PK''"
  "is_file zip_store ''/srv/uploads/00ab7f10ff42__a.txt''"
  "file_get_contents zip_store ''/srv/uploads/00ab7f10ff42__a.txt'' = ''hello''"
  "\<not> is_file zip_store ''/srv/uploads/none.zip''"
  "\<not> is_file zip_store ''/srv/uploads''"
  by (simp_all add: zip_store_def is_file_def file_get_contents_def)

lemma zip_lib_facts:
  "zip_loaded (zip_lib es)" "zip_open (zip_lib es) ''PK'' = Some es"
  "zip_open (zip_lib es) ''hello'' = None"
  by (simp_all add: zip_lib_def null_lib_def)

lemma content_replicate:
  "content_entries (replicate n demo_file_entry) = replicate n (preview_entry demo_file_entry)"
  by (simp add: content_entries_def demo_file_entry_def is_placeholder_def)

theorem buildZipPreview_spec_witness:
  "(0::int) < 2
   \<and> buildZipPreview (zip_lib demo_entries) zip_store ''/srv/uploads/00ab7f10ff42__a.zip'' 2 =
       \<lparr> zipContents = [JObj [(''name'', JStr ''docs/a.txt''), (''size'', JNum 3)],
                        JObj [(''name'', JStr ''b.bin''), (''size'', JNum 0)]],
         zipTruncated = False \<rparr>
   \<and> buildZipPreview (zip_lib demo_entries) zip_store ''/srv/uploads/00ab7f10ff42__a.zip'' 1 =
       \<lparr> zipContents = [JObj [(''name'', JStr ''docs/a.txt''), (''size'', JNum 3)]],
         zipTruncated = True \<rparr>
   \<and> buildZipPreview (zip_lib demo_entries) zip_store ''/srv/uploads/00ab7f10ff42__a.txt'' 200 =
       \<lparr> zipContents = [], zipTruncated = False \<rparr>
   \<and> buildZipPreview (zip_lib demo_entries) zip_store ''/srv/uploads/none.zip'' 200 =
       \<lparr> zipContents = [], zipTruncated = False \<rparr>
   \<and> buildZipPreview (zip_lib demo_entries) zip_store ''/srv/uploads'' 200 =
       \<lparr> zipContents = [], zipTruncated = False \<rparr>
   \<and> length (zipContents (buildZipPreview (zip_lib (replicate 500 demo_file_entry)) zip_store
         ''/srv/uploads/00ab7f10ff42__a.zip'' 200)) = 200
   \<and> zipTruncated (buildZipPreview (zip_lib (replicate 500 demo_file_entry)) zip_store
         ''/srv/uploads/00ab7f10ff42__a.zip'' 200)
   \<and> length (zipContents (buildZipPreview (zip_lib (replicate 50 demo_file_entry)) zip_store
         ''/srv/uploads/00ab7f10ff42__a.zip'' 200)) = 50
   \<and> \<not> zipTruncated (buildZipPreview (zip_lib (replicate 50 demo_file_entry)) zip_store
         ''/srv/uploads/00ab7f10ff42__a.zip'' 200)"
proof -
  have c: "content_entries demo_entries =
      [JObj [(''name'', JStr ''docs/a.txt''), (''size'', JNum 3)],
       JObj [(''name'', JStr ''b.bin''), (''size'', JNum 0)]]"
    by (simp add: content_entries_def demo_entries_def is_placeholder_def preview_entry_def)
  have two: "(0::int) < 2" and one: "(0::int) < 1" and dflt: "(0::int) < 200" by simp_all
  have "buildZipPreview (zip_lib demo_entries) zip_store ''/srv/uploads/00ab7f10ff42__a.zip'' 2 =
       \<lparr> zipContents = [JObj [(''name'', JStr ''docs/a.txt''), (''size'', JNum 3)],
                        JObj [(''name'', JStr ''b.bin''), (''size'', JNum 0)]],
         zipTruncated = False \<rparr>"
    using buildZipPreview_spec [OF two, of "zip_lib demo_entries" zip_store
        "''/srv/uploads/00ab7f10ff42__a.zip''"]
    by (simp add: zip_store_facts zip_lib_facts c)
  moreover have "buildZipPreview (zip_lib demo_entries) zip_store ''/srv/uploads/00ab7f10ff42__a.zip'' 1 =
       \<lparr> zipContents = [JObj [(''name'', JStr ''docs/a.txt''), (''size'', JNum 3)]],
         zipTruncated = True \<rparr>"
    using buildZipPreview_spec [OF one, of "zip_lib demo_entries" zip_store
        "''/srv/uploads/00ab7f10ff42__a.zip''"]
    by (simp add: zip_store_facts zip_lib_facts c)
  moreover have "buildZipPreview (zip_lib demo_entries) zip_store ''/srv/uploads/00ab7f10ff42__a.txt'' 200 =
       \<lparr> zipContents = [], zipTruncated = False \<rparr>"
    using buildZipPreview_spec [OF dflt, of "zip_lib demo_entries" zip_store
        "''/srv/uploads/00ab7f10ff42__a.txt''"]
    by (simp add: zip_store_facts zip_lib_facts)
  moreover have "buildZipPreview (zip_lib demo_entries) zip_store ''/srv/uploads/none.zip'' 200 =
       \<lparr> zipContents = [], zipTruncated = False \<rparr>"
    using buildZipPreview_spec [OF dflt, of "zip_lib demo_entries" zip_store
        "''/srv/uploads/none.zip''"]
    by (simp add: zip_store_facts zip_lib_facts)
  moreover have "buildZipPreview (zip_lib demo_entries) zip_store ''/srv/uploads'' 200 =
       \<lparr> zipContents = [], zipTruncated = False \<rparr>"
    using buildZipPreview_spec [OF dflt, of "zip_lib demo_entries" zip_store "''/srv/uploads''"]
    by (simp add: zip_store_facts zip_lib_facts)
  moreover have "length (zipContents (buildZipPreview (zip_lib (replicate 500 demo_file_entry)) zip_store
         ''/srv/uploads/00ab7f10ff42__a.zip'' 200)) = 200
      \<and> zipTruncated (buildZipPreview (zip_lib (replicate 500 demo_file_entry)) zip_store
         ''/srv/uploads/00ab7f10ff42__a.zip'' 200)"
    using buildZipPreview_spec [OF dflt, of "zip_lib (replicate 500 demo_file_entry)" zip_store
        "''/srv/uploads/00ab7f10ff42__a.zip''" "replicate 500 demo_file_entry"]
    by (simp add: zip_store_facts zip_lib_facts content_replicate)
  moreover have "length (zipContents (buildZipPreview (zip_lib (replicate 50 demo_file_entry)) zip_store
         ''/srv/uploads/00ab7f10ff42__a.zip'' 200)) = 50
      \<and> \<not> zipTruncated (buildZipPreview (zip_lib (replicate 50 demo_file_entry)) zip_store
         ''/srv/uploads/00ab7f10ff42__a.zip'' 200)"
    using buildZipPreview_spec [OF dflt, of "zip_lib (replicate 50 demo_file_entry)" zip_store
        "''/srv/uploads/00ab7f10ff42__a.zip''" "replicate 50 demo_file_entry"]
    by (simp add: zip_store_facts zip_lib_facts content_replicate)
  ultimately show ?thesis using two by simp
qed

subsection \<open>The id of an info or download request\<close>

lemma sanitize_id_idem: "sanitize_id (sanitize_id raw) = sanitize_id raw"
  by (simp add: sanitize_id_def)

lemma sanitize_id_bin2hex: "sanitize_id (bin2hex bs) = bin2hex bs"
  unfolding sanitize_id_def by (rule filter_True) (auto intro: is_hex_alnum is_hex_bin2hex)

lemma handle_get_sanitized:
  "handle_get lib cfg w raw info fs = handle_get lib cfg w (sanitize_id raw) info fs"
  by (simp add: handle_get_def sanitize_id_idem)

lemma handle_get_bad_id:
  "\<not> str_truthy (sanitize_id raw) \<Longrightarrow> handle_get lib cfg w raw info fs = (bad_id info, fs, [])"
  by (simp add: handle_get_def)

lemma run_get:
  assumes "req_method req = ''GET''" and "get_id req = Some raw"
    and "cleanupExpired lib (metaDir cfg) (expirationHours cfg) (at_sweep w) fs = (Done, fs1, ops1)"
  shows "run lib cfg w req fs =
     (case handle_get lib cfg w raw (get_info req) fs1 of (r, fs2, ops2) \<Rightarrow> (r, fs2, ops1 @ ops2))"
  using assms by (simp add: run_def)

subsection \<open>One pass of the sweep\<close>

lemma expired_not_malformed: "expired lib now text \<Longrightarrow> \<not> malformed lib text"
  by (auto simp: expired_def malformed_def Let_def)

lemma sweep_one_threw: "sweep_one lib now m fs = (Threw, fs1, ops) \<Longrightarrow> fs1 = fs \<and> ops = []"
  by (auto simp: sweep_one_def Let_def split: if_splits option.splits)

lemma sweep_one_kept:
  "\<not> expired lib now (file_get_contents fs m) \<Longrightarrow> sweep_one lib now m fs = (r, fs1, ops)
   \<Longrightarrow> fs1 = fs \<and> ops = []"
  by (auto simp: sweep_one_def expired_def Let_def split: if_splits option.splits)

lemma sweep_one_malformed:
  "malformed lib (file_get_contents fs m) \<Longrightarrow> sweep_one lib now m fs = (Done, fs, [])"
  by (auto simp: sweep_one_def malformed_def Let_def)

lemma sweep_one_expired:
  assumes "expired lib now (file_get_contents fs m)" and "sweep_one lib now m fs = (Done, fs1, ops)"
  shows "fs1 = unlink m (case backing lib (file_get_contents fs m) of
                          None \<Rightarrow> fs
                        | Some p \<Rightarrow> if file_exists lib fs p then unlink p fs else fs)
       \<and> ops = (case backing lib (file_get_contents fs m) of
                  None \<Rightarrow> []
                | Some p \<Rightarrow> if file_exists lib fs p then [Unlink p] else []) @ [Unlink m]"
  using assms
  by (auto simp: sweep_one_def expired_def backing_def Let_def split: if_splits option.splits)

lemma sweep_one_map:
  assumes "sweep_one lib now m fs = (r, fs1, ops)"
  shows "map_of fs1 q =
     (if r = Done \<and> expired lib now (file_get_contents fs m)
         \<and> (q = m \<or> backing lib (file_get_contents fs m) = Some q)
      then None else map_of fs q)"
proof (cases "expired lib now (file_get_contents fs m)")
  case False
  with assms show ?thesis by (auto dest: sweep_one_kept)
next
  case True
  show ?thesis
  proof (cases r)
    case Threw
    with assms show ?thesis by (auto dest: sweep_one_threw)
  next
    case Done
    with assms True have "fs1 = unlink m (case backing lib (file_get_contents fs m) of
                          None \<Rightarrow> fs
                        | Some p \<Rightarrow> if file_exists lib fs p then unlink p fs else fs)"
      by (auto dest: sweep_one_expired)
    with True Done show ?thesis
      by (auto simp: file_exists_def is_file_def split: option.splits)
  qed
qed

lemma sweep_one_mono:
  "sweep_one lib now m fs = (r, fs1, ops) \<Longrightarrow> map_of fs1 q = None \<or> map_of fs1 q = map_of fs q"
  by (simp add: sweep_one_map)

lemma sweep_one_ops:
  assumes "sweep_one lib now m fs = (r, fs1, ops)" and "Unlink q \<in> set ops"
  shows "expired lib now (file_get_contents fs m)
     \<and> (q = m \<or> backing lib (file_get_contents fs m) = Some q)"
proof (cases "expired lib now (file_get_contents fs m)")
  case False
  with assms show ?thesis by (auto dest: sweep_one_kept)
next
  case True
  show ?thesis
  proof (cases r)
    case Threw
    with assms show ?thesis by (auto dest: sweep_one_threw)
  next
    case Done
    with assms True show ?thesis
      by (auto dest!: sweep_one_expired split: option.splits if_splits)
  qed
qed

subsection \<open>The sweep loop\<close>

lemma sweep_loop_Cons:
  assumes "sweep_loop lib now (m # ms) fs = (r, fs', ops)"
  obtains (threw) "r = Threw" "sweep_one lib now m fs = (Threw, fs', ops)"
  | (continued) fs1 ops1 ops2 where "sweep_one lib now m fs = (Done, fs1, ops1)"
      "sweep_loop lib now ms fs1 = (r, fs', ops2)" "ops = ops1 @ ops2"
proof (cases "sweep_one lib now m fs")
  case (fields r1 fs1 ops1)
  show ?thesis
  proof (cases r1)
    case Threw
    with fields assms threw show ?thesis by simp
  next
    case Done
    obtain r2 fs2 ops2 where l: "sweep_loop lib now ms fs1 = (r2, fs2, ops2)"
      by (cases "sweep_loop lib now ms fs1")
    with fields Done assms continued show ?thesis by simp
  qed
qed

text \<open>The sweep deletes and never writes: a file is gone afterwards or as it was.\<close>

lemma sweep_loop_mono:
  "sweep_loop lib now ms fs = (r, fs', ops) \<Longrightarrow> map_of fs' q = None \<or> map_of fs' q = map_of fs q"
proof (induction ms arbitrary: fs r fs' ops)
  case Nil
  then show ?case by simp
next
  case (Cons m ms)
  from Cons.prems show ?case
  proof (cases rule: sweep_loop_Cons)
    case threw
    then show ?thesis by (auto dest: sweep_one_threw)
  next
    case (continued fs1 ops1 ops2)
    from Cons.IH [OF continued(2)] sweep_one_mono [OF continued(1), of q]
    show ?thesis by auto
  qed
qed

text \<open>
  A file stays as it is when no expired record of the list is stored at it or
  names it as its path.
\<close>

lemma sweep_loop_preserves:
  assumes "\<not> truthy (json_decode lib [])"
    and "\<forall>m \<in> set ms. expired lib now (file_get_contents fs m) \<longrightarrow>
           m \<noteq> q \<and> backing lib (file_get_contents fs m) \<noteq> Some q"
    and "sweep_loop lib now ms fs = (r, fs', ops)"
  shows "map_of fs' q = map_of fs q \<and> Unlink q \<notin> set ops"
  using assms(2,3)
proof (induction ms arbitrary: fs r fs' ops)
  case Nil
  then show ?case by simp
next
  case (Cons m ms)
  have nul: "\<not> expired lib now []"
    using assms(1) by (simp add: expired_def Let_def)
  from Cons.prems(2) show ?case
  proof (cases rule: sweep_loop_Cons)
    case threw
    then show ?thesis by (auto dest: sweep_one_threw)
  next
    case (continued fs1 ops1 ops2)
    have hd: "expired lib now (file_get_contents fs m) \<longrightarrow>
           m \<noteq> q \<and> backing lib (file_get_contents fs m) \<noteq> Some q"
      using Cons.prems(1) by simp
    have q1: "map_of fs1 q = map_of fs q"
      using sweep_one_map [OF continued(1), of q] hd by (simp split: if_splits) blast
    have o1: "Unlink q \<notin> set ops1"
      using sweep_one_ops [OF continued(1), of q] hd by blast
    have "\<forall>m' \<in> set ms. expired lib now (file_get_contents fs1 m') \<longrightarrow>
           m' \<noteq> q \<and> backing lib (file_get_contents fs1 m') \<noteq> Some q"
    proof (intro ballI impI)
      fix m' assume m': "m' \<in> set ms" and e: "expired lib now (file_get_contents fs1 m')"
      from sweep_one_mono [OF continued(1), of m']
      have "file_get_contents fs1 m' = [] \<or> file_get_contents fs1 m' = file_get_contents fs m'"
        by (auto simp: file_get_contents_def)
      with e nul have "file_get_contents fs1 m' = file_get_contents fs m'" by metis
      moreover from m' Cons.prems(1) have "expired lib now (file_get_contents fs m') \<longrightarrow>
           m' \<noteq> q \<and> backing lib (file_get_contents fs m') \<noteq> Some q" by simp
      ultimately show "m' \<noteq> q \<and> backing lib (file_get_contents fs1 m') \<noteq> Some q"
        using e by simp
    qed
    from Cons.IH [OF this continued(2)] q1 o1 continued(3) show ?thesis by simp
  qed
qed

text \<open>A sweep that completes leaves no expired record of the list behind.\<close>

lemma sweep_loop_removes:
  assumes "sweep_loop lib now ms fs = (Done, fs', ops)" and "m \<in> set ms"
    and "expired lib now (file_get_contents fs m)"
  shows "map_of fs' m = None"
  using assms
proof (induction ms arbitrary: fs fs' ops)
  case Nil
  then show ?case by simp
next
  case (Cons m0 ms)
  from Cons.prems(1) show ?case
  proof (cases rule: sweep_loop_Cons)
    case threw
    then show ?thesis by simp
  next
    case (continued fs1 ops1 ops2)
    show ?thesis
    proof (cases "map_of fs1 m = None")
      case True
      with sweep_loop_mono [OF continued(2), of m] show ?thesis by auto
    next
      case False
      have eqn: "map_of fs1 m =
          (if expired lib now (file_get_contents fs m0)
              \<and> (m = m0 \<or> backing lib (file_get_contents fs m0) = Some m)
           then None else map_of fs m)"
        using sweep_one_map [OF continued(1), of m] by simp
      have ne: "m \<noteq> m0"
      proof
        assume "m = m0"
        with eqn Cons.prems(3) have "map_of fs1 m = None" by simp
        with False show False by simp
      qed
      have same: "map_of fs1 m = map_of fs m"
        using eqn False by metis
      from ne Cons.prems(2) have "m \<in> set ms" by simp
      moreover from Cons.prems(3) have "expired lib now (file_get_contents fs1 m)"
        by (simp only: contents_same [OF same])
      ultimately show ?thesis by (rule Cons.IH [OF continued(2)])
    qed
  qed
qed

lemma sweep_loop_ops:
  assumes "\<not> truthy (json_decode lib [])"
    and "sweep_loop lib now ms fs = (r, fs', ops)" and "Unlink q \<in> set ops"
  shows "\<exists>m \<in> set ms. expired lib now (file_get_contents fs m)
           \<and> (q = m \<or> backing lib (file_get_contents fs m) = Some q)"
  using sweep_loop_preserves [OF assms(1) _ assms(2), of q] assms(3) by blast

lemma precedes_append:
  "precedes a b (xs @ ys) =
     (if a \<in> set xs then precedes a b xs \<or> b \<in> set ys else precedes a b ys)"
proof (cases "a \<in> set xs")
  case True
  then have ne: "dropWhile (\<lambda>x. x \<noteq> a) xs \<noteq> []" by (simp add: dropWhile_eq_Nil_conv)
  from True have "dropWhile (\<lambda>x. x \<noteq> a) (xs @ ys) = dropWhile (\<lambda>x. x \<noteq> a) xs @ ys"
    by (intro dropWhile_append1 [of a]) auto
  with ne True show ?thesis by (auto simp: precedes_def)
next
  case False
  then have "dropWhile (\<lambda>x. x \<noteq> a) (xs @ ys) = dropWhile (\<lambda>x. x \<noteq> a) ys"
    by (intro dropWhile_append2) auto
  with False show ?thesis by (simp add: precedes_def)
qed

lemma sweep_step_contents:
  assumes "\<not> truthy (json_decode lib [])" and "sweep_one lib now m0 fs = (r, fs1, ops1)"
    and "expired lib now (file_get_contents fs1 m)"
  shows "file_get_contents fs1 m = file_get_contents fs m"
proof -
  have nul: "\<not> expired lib now []"
    using assms(1) by (simp add: expired_def Let_def)
  from sweep_one_mono [OF assms(2), of m]
  have "file_get_contents fs1 m = [] \<or> file_get_contents fs1 m = file_get_contents fs m"
    by (auto simp: file_get_contents_def)
  with assms(3) nul show ?thesis by metis
qed

text \<open>
  A sweep that completes unlinks the metadata file of every expired record of the
  list, when no expired record names that file as its path.
\<close>

lemma sweep_loop_unlinks:
  assumes "\<not> truthy (json_decode lib [])"
    and "sweep_loop lib now ms fs = (Done, fs', ops)" and "m \<in> set ms"
    and "expired lib now (file_get_contents fs m)"
    and "\<forall>m' \<in> set ms. expired lib now (file_get_contents fs m') \<longrightarrow>
           backing lib (file_get_contents fs m') \<noteq> Some m"
  shows "Unlink m \<in> set ops"
  using assms(2-5)
proof (induction ms arbitrary: fs fs' ops)
  case Nil
  then show ?case by simp
next
  case (Cons m0 ms)
  from Cons.prems(1) show ?case
  proof (cases rule: sweep_loop_Cons)
    case threw
    then show ?thesis by simp
  next
    case (continued fs1 ops1 ops2)
    show ?thesis
    proof (cases "m = m0")
      case True
      with Cons.prems(3) continued(1) have "Unlink m \<in> set ops1"
        by (auto dest!: sweep_one_expired)
      with continued(3) show ?thesis by simp
    next
      case False
      with Cons.prems(2) have mem: "m \<in> set ms" by simp
      have "expired lib now (file_get_contents fs m0) \<longrightarrow>
           backing lib (file_get_contents fs m0) \<noteq> Some m"
        using Cons.prems(4) by simp
      with False sweep_one_map [OF continued(1), of m]
      have same: "map_of fs1 m = map_of fs m" by (auto split: if_splits)
      have e1: "expired lib now (file_get_contents fs1 m)"
        using Cons.prems(3) by (simp only: contents_same [OF same])
      have "\<forall>m' \<in> set ms. expired lib now (file_get_contents fs1 m') \<longrightarrow>
           backing lib (file_get_contents fs1 m') \<noteq> Some m"
      proof (intro ballI impI)
        fix m' assume m': "m' \<in> set ms" and e: "expired lib now (file_get_contents fs1 m')"
        have c: "file_get_contents fs1 m' = file_get_contents fs m'"
          using assms(1) continued(1) e by (rule sweep_step_contents)
        from m' Cons.prems(4) have "expired lib now (file_get_contents fs m') \<longrightarrow>
           backing lib (file_get_contents fs m') \<noteq> Some m" by simp
        with e show "backing lib (file_get_contents fs1 m') \<noteq> Some m" by (simp add: c)
      qed
      from Cons.IH [OF continued(2) mem e1 this] continued(3) show ?thesis by simp
    qed
  qed
qed

text \<open>
  When an expired record of the list names a file that exists, a sweep that
  completes unlinks that file and, later, the record's metadata file, provided
  no expired record of the list names a metadata file of the list as its path.
\<close>

lemma sweep_loop_order:
  assumes "\<not> truthy (json_decode lib [])"
    and "sweep_loop lib now ms fs = (Done, fs', ops)" and "m \<in> set ms"
    and "expired lib now (file_get_contents fs m)"
    and "backing lib (file_get_contents fs m) = Some p" and "file_exists lib fs p"
    and "\<forall>m' \<in> set ms. \<forall>p'. expired lib now (file_get_contents fs m') \<and>
           backing lib (file_get_contents fs m') = Some p' \<longrightarrow> p' \<notin> set ms"
  shows "precedes (Unlink p) (Unlink m) ops"
  using assms(2-7)
proof (induction ms arbitrary: fs fs' ops)
  case Nil
  then show ?case by simp
next
  case (Cons m0 ms)
  from Cons.prems(1) show ?case
  proof (cases rule: sweep_loop_Cons)
    case threw
    then show ?thesis by simp
  next
    case (continued fs1 ops1 ops2)
    have pm: "p \<notin> set (m0 # ms)"
      using Cons.prems(2,3,4,6) by blast
    show ?thesis
    proof (cases "m = m0")
      case True
      with Cons.prems(3,4,5) continued(1) have "ops1 = [Unlink p, Unlink m]"
        by (auto dest!: sweep_one_expired)
      with continued(3) show ?thesis by (simp add: precedes_def)
    next
      case False
      with Cons.prems(2) have mem: "m \<in> set ms" by simp
      have na0: "\<not> (expired lib now (file_get_contents fs m0)
                  \<and> backing lib (file_get_contents fs m0) = Some m)"
        using Cons.prems(6) mem by auto
      with False sweep_one_map [OF continued(1), of m]
      have same: "map_of fs1 m = map_of fs m" by (auto split: if_splits)
      have c: "file_get_contents fs1 m = file_get_contents fs m"
        by (rule contents_same [OF same])
      have e1: "expired lib now (file_get_contents fs1 m)"
        using Cons.prems(3) by (simp add: c)
      have b1: "backing lib (file_get_contents fs1 m) = Some p"
        using Cons.prems(4) by (simp add: c)
      have na: "\<forall>m' \<in> set ms. \<forall>p'. expired lib now (file_get_contents fs1 m') \<and>
           backing lib (file_get_contents fs1 m') = Some p' \<longrightarrow> p' \<notin> set ms"
      proof (intro ballI allI impI)
        fix m' p'
        assume m': "m' \<in> set ms"
          and e: "expired lib now (file_get_contents fs1 m') \<and>
                  backing lib (file_get_contents fs1 m') = Some p'"
        have c': "file_get_contents fs1 m' = file_get_contents fs m'"
          using assms(1) continued(1) e by (blast intro: sweep_step_contents)
        from e have "expired lib now (file_get_contents fs m') \<and>
                  backing lib (file_get_contents fs m') = Some p'" by (simp add: c')
        with m' Cons.prems(6) show "p' \<notin> set ms" by auto
      qed
      show ?thesis
      proof (cases "Unlink p \<in> set ops1")
        case True
        have "\<forall>m' \<in> set ms. expired lib now (file_get_contents fs1 m') \<longrightarrow>
           backing lib (file_get_contents fs1 m') \<noteq> Some m"
          using na mem by blast
        with assms(1) continued(2) mem e1 have "Unlink m \<in> set ops2"
          by (rule sweep_loop_unlinks)
        with True continued(3) show ?thesis by (simp add: precedes_append)
      next
        case no: False
        have "file_exists lib fs1 p"
        proof (cases "expired lib now (file_get_contents fs m0)")
          case False
          with continued(1) Cons.prems(5) show ?thesis by (auto dest: sweep_one_kept)
        next
          case True
          from sweep_one_expired [OF True continued(1)] no Cons.prems(5) pm
          show ?thesis by (auto simp: file_exists_def [of lib _ p] split: option.splits if_splits)
        qed
        from Cons.IH [OF continued(2) mem e1 b1 this na] no continued(3)
        show ?thesis by (simp add: precedes_append)
      qed
    qed
  qed
qed

lemma precedes_mem: "precedes a b xs \<Longrightarrow> a \<in> set xs"
proof (rule ccontr)
  assume p: "precedes a b xs" and n: "a \<notin> set xs"
  from n have "dropWhile (\<lambda>x. x \<noteq> a) xs = []" by (simp add: dropWhile_eq_Nil_conv) blast
  with p show False by (simp add: precedes_def)
qed

text \<open>What the sweep has unlinked is gone when it ends.\<close>

lemma sweep_loop_unlinked:
  "sweep_loop lib now ms fs = (r, fs', ops) \<Longrightarrow> Unlink q \<in> set ops \<Longrightarrow> map_of fs' q = None"
proof (induction ms arbitrary: fs r fs' ops)
  case Nil
  then show ?case by simp
next
  case (Cons m ms)
  from Cons.prems(1) show ?case
  proof (cases rule: sweep_loop_Cons)
    case threw
    with Cons.prems(2) show ?thesis by (auto dest: sweep_one_threw)
  next
    case (continued fs1 ops1 ops2)
    show ?thesis
    proof (cases "Unlink q \<in> set ops1")
      case True
      from sweep_one_ops [OF continued(1) True] sweep_one_map [OF continued(1), of q]
      have "map_of fs1 q = None" by simp
      with sweep_loop_mono [OF continued(2), of q] show ?thesis by auto
    next
      case False
      with Cons.prems(2) continued(3) have "Unlink q \<in> set ops2" by simp
      with Cons.IH [OF continued(2)] show ?thesis by simp
    qed
  qed
qed

subsection \<open>What a completed sweep removes\<close>

text \<open>
  Claim C3, as amended. Take a sweep that completes, in a store where no expired
  record names a listed metadata file as its path (no record written by an
  upload does). A record is expired when its \<^verbatim>\<open>expiresAt\<close> is before the sweep's
  clock reading: \<open>expiresAt < now\<close>, not \<open>expiresAt \<le> now\<close>. Then the sweep
  removes the metadata file of every expired record and leaves every other
  listed metadata file as it was; a file that is not a listed metadata file is
  removed when an expired record names it as its path and is left as it was
  otherwise; and for an expired record whose bytes exist, the bytes are unlinked
  first and the metadata file later.
\<close>

theorem sweep_removes_expired:
  assumes "cleanupExpired lib dir hours now fs = (Done, fs', ops)"
    and "json_decode lib [] = JNull"
    and "\<forall>m \<in> set (glob_json dir fs). \<forall>p.
           expired lib now (file_get_contents fs m) \<and> backing lib (file_get_contents fs m) = Some p
           \<longrightarrow> p \<notin> set (glob_json dir fs)"
  shows "(\<forall>m \<in> set (glob_json dir fs).
            if expired lib now (file_get_contents fs m)
            then map_of fs' m = None \<and> Unlink m \<in> set ops
            else map_of fs' m = map_of fs m \<and> Unlink m \<notin> set ops)
    \<and> (\<forall>q. q \<notin> set (glob_json dir fs) \<longrightarrow>
          map_of fs' q =
            (if \<exists>m \<in> set (glob_json dir fs). expired lib now (file_get_contents fs m)
                  \<and> backing lib (file_get_contents fs m) = Some q
             then None else map_of fs q))
    \<and> (\<forall>m \<in> set (glob_json dir fs). \<forall>p.
          expired lib now (file_get_contents fs m) \<and> backing lib (file_get_contents fs m) = Some p
          \<and> file_exists lib fs p \<longrightarrow> precedes (Unlink p) (Unlink m) ops)"
proof -
  let ?ms = "glob_json dir fs"
  have run: "sweep_loop lib now ?ms fs = (Done, fs', ops)"
    using assms(1) by (simp add: cleanupExpired_def)
  have nul: "\<not> truthy (json_decode lib [])" using assms(2) by simp
  have named: "backing lib (file_get_contents fs m') \<noteq> Some m"
    if "m \<in> set ?ms" "m' \<in> set ?ms" "expired lib now (file_get_contents fs m')" for m m'
    using that assms(3) by blast
  have order: "precedes (Unlink p) (Unlink m) ops"
    if "m \<in> set ?ms" "expired lib now (file_get_contents fs m)"
      "backing lib (file_get_contents fs m) = Some p" "file_exists lib fs p" for m p
    using nul run that assms(3) by (rule sweep_loop_order)
  have one: "if expired lib now (file_get_contents fs m)
            then map_of fs' m = None \<and> Unlink m \<in> set ops
            else map_of fs' m = map_of fs m \<and> Unlink m \<notin> set ops" if m: "m \<in> set ?ms" for m
  proof (cases "expired lib now (file_get_contents fs m)")
    case True
    have "map_of fs' m = None" using run m True by (rule sweep_loop_removes)
    moreover have "Unlink m \<in> set ops"
      using nul run m True named [OF m] by (intro sweep_loop_unlinks [of lib now ?ms fs fs' ops m]) auto
    ultimately show ?thesis using True by simp
  next
    case False
    have "\<forall>m' \<in> set ?ms. expired lib now (file_get_contents fs m') \<longrightarrow>
           m' \<noteq> m \<and> backing lib (file_get_contents fs m') \<noteq> Some m"
      using False named [OF m] by auto
    from sweep_loop_preserves [OF nul this run] False show ?thesis by simp
  qed
  have two: "map_of fs' q =
            (if \<exists>m \<in> set ?ms. expired lib now (file_get_contents fs m)
                  \<and> backing lib (file_get_contents fs m) = Some q
             then None else map_of fs q)" if q: "q \<notin> set ?ms" for q
  proof (cases "\<exists>m \<in> set ?ms. expired lib now (file_get_contents fs m)
                  \<and> backing lib (file_get_contents fs m) = Some q")
    case True
    then obtain m where m: "m \<in> set ?ms" "expired lib now (file_get_contents fs m)"
      "backing lib (file_get_contents fs m) = Some q" by blast
    have "map_of fs' q = None"
    proof (cases "file_exists lib fs q")
      case True
      from order [OF m True] have "Unlink q \<in> set ops" by (rule precedes_mem)
      with run show ?thesis by (rule sweep_loop_unlinked)
    next
      case False
      with sweep_loop_mono [OF run, of q] show ?thesis by (auto simp: file_exists_def is_file_def)
    qed
    with True show ?thesis by simp
  next
    case False
    then have "\<forall>m' \<in> set ?ms. expired lib now (file_get_contents fs m') \<longrightarrow>
           m' \<noteq> q \<and> backing lib (file_get_contents fs m') \<noteq> Some q"
      using q by auto
    from sweep_loop_preserves [OF nul this run] False show ?thesis by auto
  qed
  from one two order show ?thesis by blast
qed

theorem sweep_removes_expired_witness:
  "cleanupExpired demo_lib ''/srv/uploads/meta'' 48 (150 * second) store_ab =
     (Done,
      [(''/srv/uploads/meta/bb.json'', ''B''), (''/srv/uploads/bb__b.txt'', ''world'')],
      [Unlink ''/srv/uploads/aa__a.txt'', Unlink ''/srv/uploads/meta/aa.json''])
   \<and> json_decode demo_lib [] = JNull
   \<and> expired demo_lib (150 * second) (file_get_contents store_ab ''/srv/uploads/meta/aa.json'')
   \<and> \<not> expired demo_lib (150 * second) (file_get_contents store_ab ''/srv/uploads/meta/bb.json'')
   \<and> map_of [(''/srv/uploads/meta/bb.json'', ''B''), (''/srv/uploads/bb__b.txt'', ''world'')]
         ''/srv/uploads/meta/aa.json'' = None
   \<and> map_of [(''/srv/uploads/meta/bb.json'', ''B''), (''/srv/uploads/bb__b.txt'', ''world'')]
         ''/srv/uploads/meta/bb.json'' = Some ''B''
   \<and> map_of [(''/srv/uploads/meta/bb.json'', ''B''), (''/srv/uploads/bb__b.txt'', ''world'')]
         ''/srv/uploads/aa__a.txt'' = None
   \<and> map_of [(''/srv/uploads/meta/bb.json'', ''B''), (''/srv/uploads/bb__b.txt'', ''world'')]
         ''/srv/uploads/bb__b.txt'' = Some ''world''
   \<and> precedes (Unlink ''/srv/uploads/aa__a.txt'') (Unlink ''/srv/uploads/meta/aa.json'')
         [Unlink ''/srv/uploads/aa__a.txt'', Unlink ''/srv/uploads/meta/aa.json'']"
proof -
  let ?dir = "''/srv/uploads/meta''"
  let ?fs' = "[(''/srv/uploads/meta/bb.json'', ''B''), (''/srv/uploads/bb__b.txt'', ''world'')]"
  let ?ops = "[Unlink ''/srv/uploads/aa__a.txt'', Unlink ''/srv/uploads/meta/aa.json'']"
  have run: "cleanupExpired demo_lib ?dir 48 (150 * second) store_ab = (Done, ?fs', ?ops)"
    by code_simp
  have noalias: "\<forall>m \<in> set (glob_json ?dir store_ab). \<forall>p.
           expired demo_lib (150 * second) (file_get_contents store_ab m)
           \<and> backing demo_lib (file_get_contents store_ab m) = Some p
           \<longrightarrow> p \<notin> set (glob_json ?dir store_ab)"
    by (simp add: store_ab_facts demo_lib_facts)
  note T = sweep_removes_expired [OF run demo_lib_facts(1) noalias]
  have aa: "''/srv/uploads/meta/aa.json'' \<in> set (glob_json ?dir store_ab)"
    and bb: "''/srv/uploads/meta/bb.json'' \<in> set (glob_json ?dir store_ab)"
    and out: "''/srv/uploads/aa__a.txt'' \<notin> set (glob_json ?dir store_ab)"
      "''/srv/uploads/bb__b.txt'' \<notin> set (glob_json ?dir store_ab)"
    by (simp_all add: store_ab_facts)
  have e: "expired demo_lib (150 * second) (file_get_contents store_ab ''/srv/uploads/meta/aa.json'')"
    "\<not> expired demo_lib (150 * second) (file_get_contents store_ab ''/srv/uploads/meta/bb.json'')"
    by (simp_all add: store_ab_facts demo_lib_facts)
  from T aa e(1) have 1: "map_of ?fs' ''/srv/uploads/meta/aa.json'' = None" by meson
  from T bb e(2) have 2: "map_of ?fs' ''/srv/uploads/meta/bb.json'' = Some ''B''"
    by (metis store_ab_facts(5))
  have named: "\<exists>m \<in> set (glob_json ?dir store_ab).
      expired demo_lib (150 * second) (file_get_contents store_ab m)
      \<and> backing demo_lib (file_get_contents store_ab m) = Some ''/srv/uploads/aa__a.txt''"
    using aa e(1) by (auto simp: store_ab_facts demo_lib_facts)
  from T out(1) named have 3: "map_of ?fs' ''/srv/uploads/aa__a.txt'' = None" by meson
  have unnamed: "\<not> (\<exists>m \<in> set (glob_json ?dir store_ab).
      expired demo_lib (150 * second) (file_get_contents store_ab m)
      \<and> backing demo_lib (file_get_contents store_ab m) = Some ''/srv/uploads/bb__b.txt'')"
    by (simp add: store_ab_facts demo_lib_facts)
  from T out(2) unnamed have 4: "map_of ?fs' ''/srv/uploads/bb__b.txt'' = Some ''world''"
    by (metis store_ab_facts(6))
  have "backing demo_lib (file_get_contents store_ab ''/srv/uploads/meta/aa.json'')
      = Some ''/srv/uploads/aa__a.txt''"
    by (simp add: store_ab_facts demo_lib_facts)
  with T aa e(1) store_ab_facts(4)
  have 5: "precedes (Unlink ''/srv/uploads/aa__a.txt'') (Unlink ''/srv/uploads/meta/aa.json'') ?ops"
    by meson
  from run demo_lib_facts(1) e 1 2 3 4 5 show ?thesis by (intro conjI)
qed

theorem sweep_boundary_counterexample:
  "date_arg demo_lib
     (field (json_decode demo_lib (file_get_contents store_ab ''/srv/uploads/meta/aa.json''))
        ''expiresAt'') = Some (100 * second)
   \<and> cleanupExpired demo_lib ''/srv/uploads/meta'' 48 (100 * second) store_ab =
       (Done, store_ab, [])"
  by code_simp

subsection \<open>The read path\<close>

lemma handle_get_missing:
  assumes "str_truthy (sanitize_id raw)" and "\<not> file_exists lib fs (meta_path cfg (sanitize_id raw))"
  shows "handle_get lib cfg w raw info fs = (not_found info, fs, [])"
  using assms by (simp add: handle_get_def)

lemma handle_get_dangling:
  assumes "str_truthy (sanitize_id raw)" and "file_exists lib fs (meta_path cfg (sanitize_id raw))"
    and "dangling lib fs (file_get_contents fs (meta_path cfg (sanitize_id raw)))"
  shows "handle_get lib cfg w raw info fs =
     (not_found info, unlink (meta_path cfg (sanitize_id raw)) fs,
      [Unlink (meta_path cfg (sanitize_id raw))])"
  using assms by (auto simp: handle_get_def dangling_def Let_def split: option.splits)

lemma handle_get_expired:
  assumes "str_truthy (sanitize_id raw)" and "file_exists lib fs (meta_path cfg (sanitize_id raw))"
    and "truthy (json_decode lib (file_get_contents fs (meta_path cfg (sanitize_id raw))))"
    and "backing lib (file_get_contents fs (meta_path cfg (sanitize_id raw))) = Some p"
    and "file_exists lib fs p"
    and "date_arg lib (field (json_decode lib (file_get_contents fs (meta_path cfg (sanitize_id raw))))
           ''expiresAt'') = Some e"
    and "e < at_check w"
  shows "handle_get lib cfg w raw info fs =
     (gone info, unlink (meta_path cfg (sanitize_id raw)) (unlink p fs),
      [Unlink p, Unlink (meta_path cfg (sanitize_id raw))])"
  using assms by (auto simp: handle_get_def backing_def Let_def split: option.splits if_splits)


text \<open>
  When something exists at the metadata path, the GET branch does not answer 404
  without a file operation.
\<close>

lemma handle_get_found:
  assumes "str_truthy (sanitize_id raw)"
    and "file_exists lib fs (meta_path cfg (sanitize_id raw))"
  shows "handle_get lib cfg w raw info fs \<noteq> (not_found info, fs, [])"
  using assms
  by (auto simp: handle_get_def Let_def not_found_def gone_def info_response_def
      download_response_def json_error_def json_ok_def split: option.splits)

subsection \<open>The id of an info or download request\<close>

text \<open>
  Claim C7, as amended. Take an info or download request whose sweep completes.
  The id that is looked up is the supplied id without the characters outside
  \<^verbatim>\<open>a-zA-Z0-9\<close>; an id from the generator, being lowercase hexadecimal, is left
  as it is. When nothing is left, or the single character \<^verbatim>\<open>0\<close>, the answer is
  400, in JSON for an info request and in plain text for a download, whatever the
  store holds, and the GET branch performs no file operation: the store is as
  the sweep left it. Otherwise the branch looks for the metadata file named by
  what is left: it answers 404 without a file operation exactly when nothing
  exists at that path.
\<close>

theorem id_sanitized_before_lookup:
  assumes "req_method req = ''GET''" and "get_id req = Some raw"
    and "cleanupExpired lib (metaDir cfg) (expirationHours cfg) (at_sweep w) fs = (Done, fs1, ops1)"
  shows "(let stripped =
            filter (\<lambda>c. c \<in> set ''abcdefghijklmnopqrstuvwxyzABCDEFGHIJKLMNOPQRSTUVWXYZ0123456789'') raw
          in sanitize_id raw = stripped
           \<and> (if stripped = [] \<or> stripped = ''0'' then
                run lib cfg w req fs =
                  ((if get_info req then json_error 400 ''Invalid file id''
                    else Plain 400 ''Invalid download id''), fs1, ops1)
              else
                (run lib cfg w req fs =
                   ((if get_info req then json_error 404 ''File not found''
                     else Plain 404 ''File not found''), fs1, ops1))
                = (\<not> file_exists lib fs1
                       (rtrim_slash (metaDir cfg) @ ''/'' @ stripped @ ''.json''))))
    \<and> filter (\<lambda>c. c \<in> set ''abcdefghijklmnopqrstuvwxyzABCDEFGHIJKLMNOPQRSTUVWXYZ0123456789'')
         (bin2hex bs) = bin2hex bs"
proof -
  let ?A = "\<lambda>c. c \<in> set ''abcdefghijklmnopqrstuvwxyzABCDEFGHIJKLMNOPQRSTUVWXYZ0123456789''"
  have alnum: "is_alnum = ?A" by (rule ext) (rule is_alnum_chars)
  have s: "sanitize_id x = filter ?A x" for x
    by (simp only: sanitize_id_def alnum)
  have r: "run lib cfg w req fs =
     (case handle_get lib cfg w raw (get_info req) fs1 of (r, fs2, ops2) \<Rightarrow> (r, fs2, ops1 @ ops2))"
    using assms by (rule run_get)
  have bad: "run lib cfg w req fs =
       ((if get_info req then json_error 400 ''Invalid file id''
         else Plain 400 ''Invalid download id''), fs1, ops1)"
    if "sanitize_id raw = [] \<or> sanitize_id raw = ''0''"
  proof -
    from that have "\<not> str_truthy (sanitize_id raw)" by (auto simp: str_truthy_def)
    then show ?thesis by (simp add: r handle_get_bad_id bad_id_def)
  qed
  have look: "(run lib cfg w req fs =
         ((if get_info req then json_error 404 ''File not found''
           else Plain 404 ''File not found''), fs1, ops1))
       = (\<not> file_exists lib fs1 (rtrim_slash (metaDir cfg) @ ''/'' @ sanitize_id raw @ ''.json''))"
    if "\<not> (sanitize_id raw = [] \<or> sanitize_id raw = ''0'')"
  proof (cases "file_exists lib fs1 (meta_path cfg (sanitize_id raw))")
    case False
    from that have "str_truthy (sanitize_id raw)" by (simp add: str_truthy_def)
    with False show ?thesis
      by (simp add: r handle_get_missing not_found_def meta_path_def)
  next
    case True
    from that have t: "str_truthy (sanitize_id raw)" by (simp add: str_truthy_def)
    obtain a fs2 ops2 where h: "handle_get lib cfg w raw (get_info req) fs1 = (a, fs2, ops2)"
      by (cases "handle_get lib cfg w raw (get_info req) fs1")
    with handle_get_found [OF t True, of w "get_info req"]
    have "(a, fs2, ops2) \<noteq> (not_found (get_info req), fs1, [])" by simp
    then have "(a, fs2, ops1 @ ops2) \<noteq> (not_found (get_info req), fs1, ops1)" by simp
    with True show ?thesis by (simp add: r h not_found_def meta_path_def)
  qed
  have "sanitize_id (bin2hex bs) = bin2hex bs" by (rule sanitize_id_bin2hex)
  then have gen: "filter ?A (bin2hex bs) = bin2hex bs" by (simp only: s)
  have "sanitize_id raw = filter ?A raw
     \<and> (if filter ?A raw = [] \<or> filter ?A raw = ''0'' then
          run lib cfg w req fs =
            ((if get_info req then json_error 400 ''Invalid file id''
              else Plain 400 ''Invalid download id''), fs1, ops1)
        else
          (run lib cfg w req fs =
             ((if get_info req then json_error 404 ''File not found''
               else Plain 404 ''File not found''), fs1, ops1))
          = (\<not> file_exists lib fs1
                 (rtrim_slash (metaDir cfg) @ ''/'' @ filter ?A raw @ ''.json'')))"
    using bad look unfolding s [of raw] by (cases "filter ?A raw = [] \<or> filter ?A raw = ''0''") simp_all
  with gen show ?thesis unfolding Let_def by (rule conjI [rotated])
qed

theorem id_sanitized_before_lookup_witness:
  "sanitize_id ''a-a/'' = ''aa''
   \<and> file_exists demo_lib store_ab ''/srv/uploads/meta/aa.json''
   \<and> run demo_lib demo_cfg demo_world (demo_get ''a-a/'' False) store_ab
       \<noteq> (Plain 404 ''File not found'', store_ab, [])
   \<and> sanitize_id ''0-'' = ''0''
   \<and> run demo_lib demo_cfg demo_world (demo_get ''0-'' True) store_ab =
       (json_error 400 ''Invalid file id'', store_ab, [])
   \<and> sanitize_id ''../-!'' = []
   \<and> run demo_lib demo_cfg demo_world (demo_get ''../-!'' False) store_ab =
       (Plain 400 ''Invalid download id'', store_ab, [])
   \<and> sanitize_id ''z z'' = ''zz''
   \<and> \<not> file_exists demo_lib store_ab ''/srv/uploads/meta/zz.json''
   \<and> run demo_lib demo_cfg demo_world (demo_get ''z z'' False) store_ab =
       (Plain 404 ''File not found'', store_ab, [])
   \<and> filter (\<lambda>c. c \<in> set ''abcdefghijklmnopqrstuvwxyzABCDEFGHIJKLMNOPQRSTUVWXYZ0123456789'')
        (bin2hex ''AB'') = bin2hex ''AB''"
proof -
  have g: "req_method (demo_get x i) = ''GET''" "get_id (demo_get x i) = Some x"
    "get_info (demo_get x i) = i" for x i
    by (simp_all add: demo_get_def)
  have f: "filter (\<lambda>c. c \<in> set ''abcdefghijklmnopqrstuvwxyzABCDEFGHIJKLMNOPQRSTUVWXYZ0123456789'')
             ''a-a/'' = ''aa''"
    "filter (\<lambda>c. c \<in> set ''abcdefghijklmnopqrstuvwxyzABCDEFGHIJKLMNOPQRSTUVWXYZ0123456789'')
             ''0-'' = ''0''"
    "filter (\<lambda>c. c \<in> set ''abcdefghijklmnopqrstuvwxyzABCDEFGHIJKLMNOPQRSTUVWXYZ0123456789'')
             ''../-!'' = []"
    "filter (\<lambda>c. c \<in> set ''abcdefghijklmnopqrstuvwxyzABCDEFGHIJKLMNOPQRSTUVWXYZ0123456789'')
             ''z z'' = ''zz''"
    by simp_all
  have rt: "rtrim_slash ''/srv/uploads/meta'' = ''/srv/uploads/meta''"
    by (simp add: rtrim_slash_def)
  have e: "file_exists demo_lib store_ab ''/srv/uploads/meta/aa.json''"
    "\<not> file_exists demo_lib store_ab ''/srv/uploads/meta/zz.json''"
    by code_simp+
  note T = id_sanitized_before_lookup [OF g(1,2) sweep_store_ab_early, unfolded Let_def]
  have a: "sanitize_id ''a-a/'' = ''aa''
     \<and> run demo_lib demo_cfg demo_world (demo_get ''a-a/'' False) store_ab
       \<noteq> (Plain 404 ''File not found'', store_ab, [])"
    using T [of "''a-a/''" False "''AB''"] by (simp add: f g e demo_cfg_dirs rt)
  have b: "sanitize_id ''0-'' = ''0''
     \<and> run demo_lib demo_cfg demo_world (demo_get ''0-'' True) store_ab =
       (json_error 400 ''Invalid file id'', store_ab, [])"
    using T [of "''0-''" True "''AB''"] by (simp add: f g)
  have c: "sanitize_id ''../-!'' = []
     \<and> run demo_lib demo_cfg demo_world (demo_get ''../-!'' False) store_ab =
       (Plain 400 ''Invalid download id'', store_ab, [])"
    using T [of "''../-!''" False "''AB''"] by (simp add: f g)
  have d: "sanitize_id ''z z'' = ''zz''
     \<and> run demo_lib demo_cfg demo_world (demo_get ''z z'' False) store_ab =
       (Plain 404 ''File not found'', store_ab, [])"
    using T [of "''z z''" False "''AB''"] by (simp add: f g e demo_cfg_dirs rt)
  have h: "filter (\<lambda>c. c \<in> set ''abcdefghijklmnopqrstuvwxyzABCDEFGHIJKLMNOPQRSTUVWXYZ0123456789'')
        (bin2hex ''AB'') = bin2hex ''AB''"
    using T [of "''z z''" False "''AB''"] by (rule conjunct2)
  from a b c d e h show ?thesis by (intro conjI) simp_all
qed

theorem id_outside_hex_counterexample:
  "filter is_hex ''zzz'' = []
   \<and> sanitize_id ''zzz'' = ''zzz''
   \<and> handle_get null_lib demo_cfg demo_world ''zzz'' False zip_store =
       (Plain 404 ''File not found'', zip_store, [])
   \<and> run null_lib demo_cfg demo_world (demo_get ''zzz'' True) zip_store =
       (json_error 404 ''File not found'', zip_store, [])"
  by code_simp

subsection \<open>Malformed records\<close>

text \<open>
  Claim C10, as amended. Take a metadata file whose text is not JSON or whose
  \<^verbatim>\<open>expiresAt\<close> is missing or empty. The sweep's pass over it deletes nothing, in
  every state of the store that holds this text there. The whole sweep, completed
  or cut short, leaves the file as it is and does not unlink it when no expired
  record names it as its path, and leaves the bytes it names as they are when no
  expired record is stored at them or names them. The GET branch for its id
  answers 404 and unlinks it when its text decodes to nothing PHP takes for
  true, or its path is missing or empty, or is a string that names nothing that
  exists, neither a file nor a directory.
\<close>

theorem malformed_record_survives_sweep:
  assumes "json_decode lib [] = JNull"
    and "malformed lib (file_get_contents fs m)"
    and "cleanupExpired lib dir hours now fs = (r, fs', ops)"
  shows "(\<forall>fs0. file_get_contents fs0 m = file_get_contents fs m \<longrightarrow>
            sweep_one lib now m fs0 = (Done, fs0, []))
    \<and> ((\<forall>m' \<in> set (glob_json dir fs). expired lib now (file_get_contents fs m') \<longrightarrow>
            backing lib (file_get_contents fs m') \<noteq> Some m)
        \<longrightarrow> map_of fs' m = map_of fs m \<and> Unlink m \<notin> set ops)
    \<and> (\<forall>p. backing lib (file_get_contents fs m) = Some p
          \<and> (\<forall>m' \<in> set (glob_json dir fs). expired lib now (file_get_contents fs m') \<longrightarrow>
                m' \<noteq> p \<and> backing lib (file_get_contents fs m') \<noteq> Some p)
          \<longrightarrow> map_of fs' p = map_of fs p \<and> Unlink p \<notin> set ops)
    \<and> (\<forall>cfg w raw info. str_truthy (sanitize_id raw) \<and> m = meta_path cfg (sanitize_id raw)
          \<and> file_exists lib fs m \<and> dangling lib fs (file_get_contents fs m)
          \<longrightarrow> handle_get lib cfg w raw info fs = (not_found info, unlink m fs, [Unlink m]))"
proof -
  have run: "sweep_loop lib now (glob_json dir fs) fs = (r, fs', ops)"
    using assms(3) by (simp add: cleanupExpired_def)
  have nul: "\<not> truthy (json_decode lib [])" using assms(1) by simp
  have 1: "\<forall>fs0. file_get_contents fs0 m = file_get_contents fs m \<longrightarrow>
            sweep_one lib now m fs0 = (Done, fs0, [])"
    using assms(2) by (simp add: sweep_one_malformed)
  have 2: "map_of fs' m = map_of fs m \<and> Unlink m \<notin> set ops"
    if "\<forall>m' \<in> set (glob_json dir fs). expired lib now (file_get_contents fs m') \<longrightarrow>
            backing lib (file_get_contents fs m') \<noteq> Some m"
  proof -
    from that assms(2)
    have "\<forall>m' \<in> set (glob_json dir fs). expired lib now (file_get_contents fs m') \<longrightarrow>
            m' \<noteq> m \<and> backing lib (file_get_contents fs m') \<noteq> Some m"
      using expired_not_malformed by blast
    from sweep_loop_preserves [OF nul this run] show ?thesis .
  qed
  have 3: "map_of fs' p = map_of fs p \<and> Unlink p \<notin> set ops"
    if "\<forall>m' \<in> set (glob_json dir fs). expired lib now (file_get_contents fs m') \<longrightarrow>
                m' \<noteq> p \<and> backing lib (file_get_contents fs m') \<noteq> Some p" for p
    using sweep_loop_preserves [OF nul that run] .
  have 4: "handle_get lib cfg w raw info fs = (not_found info, unlink m fs, [Unlink m])"
    if "str_truthy (sanitize_id raw) \<and> m = meta_path cfg (sanitize_id raw)
          \<and> file_exists lib fs m \<and> dangling lib fs (file_get_contents fs m)"
    for cfg w raw info
    using that handle_get_dangling [of raw lib fs cfg w info] by blast
  from 1 2 3 4 show ?thesis by blast
qed

theorem malformed_record_survives_sweep_witness:
  "json_decode demo_lib [] = JNull
   \<and> malformed demo_lib (file_get_contents store_mal ''/srv/uploads/meta/nn.json'')
   \<and> malformed demo_lib (file_get_contents store_mal ''/srv/uploads/meta/xx.json'')
   \<and> cleanupExpired demo_lib ''/srv/uploads/meta'' 48 (150 * second) store_mal =
       (Done,
        [(''/srv/uploads/meta/xx.json'', ''?''), (''/srv/uploads/meta/nn.json'', ''N''),
         (''/srv/uploads/nn__n.txt'', ''bytes'')],
        [Unlink ''/srv/uploads/aa__a.txt'', Unlink ''/srv/uploads/meta/aa.json''])
   \<and> sweep_one demo_lib (150 * second) ''/srv/uploads/meta/nn.json'' store_mal = (Done, store_mal, [])
   \<and> map_of [(''/srv/uploads/meta/xx.json'', ''?''), (''/srv/uploads/meta/nn.json'', ''N''),
              (''/srv/uploads/nn__n.txt'', ''bytes'')] ''/srv/uploads/meta/nn.json'' = Some ''N''
   \<and> map_of [(''/srv/uploads/meta/xx.json'', ''?''), (''/srv/uploads/meta/nn.json'', ''N''),
              (''/srv/uploads/nn__n.txt'', ''bytes'')] ''/srv/uploads/nn__n.txt'' = Some ''bytes''
   \<and> map_of [(''/srv/uploads/meta/xx.json'', ''?''), (''/srv/uploads/meta/nn.json'', ''N''),
              (''/srv/uploads/nn__n.txt'', ''bytes'')] ''/srv/uploads/meta/xx.json'' = Some ''?''
   \<and> handle_get demo_lib demo_cfg later_world ''xx'' True store_mal =
       (not_found True, unlink ''/srv/uploads/meta/xx.json'' store_mal,
        [Unlink ''/srv/uploads/meta/xx.json''])"
proof -
  let ?dir = "''/srv/uploads/meta''"
  let ?nn = "''/srv/uploads/meta/nn.json''"
  let ?xx = "''/srv/uploads/meta/xx.json''"
  let ?fs' = "[(''/srv/uploads/meta/xx.json'', ''?''), (''/srv/uploads/meta/nn.json'', ''N''),
               (''/srv/uploads/nn__n.txt'', ''bytes'')]"
  let ?ops = "[Unlink ''/srv/uploads/aa__a.txt'', Unlink ''/srv/uploads/meta/aa.json'']"
  have run: "cleanupExpired demo_lib ?dir 48 (150 * second) store_mal = (Done, ?fs', ?ops)"
    by code_simp
  have mn: "malformed demo_lib (file_get_contents store_mal ?nn)"
    and mx: "malformed demo_lib (file_get_contents store_mal ?xx)"
    by (simp_all add: store_mal_facts demo_lib_malformed)
  note N = malformed_record_survives_sweep [OF demo_lib_facts(1) mn run]
  note X = malformed_record_survives_sweep [OF demo_lib_facts(1) mx run]
  have "sweep_one demo_lib (150 * second) ?nn store_mal = (Done, store_mal, [])"
    using N [THEN conjunct1] by blast
  moreover have nobody: "\<forall>m' \<in> set (glob_json ?dir store_mal).
      expired demo_lib (150 * second) (file_get_contents store_mal m') \<longrightarrow>
        backing demo_lib (file_get_contents store_mal m') \<noteq> Some q"
    if "q \<noteq> ''/srv/uploads/aa__a.txt''" for q
    using that by (simp add: store_mal_facts demo_lib_facts demo_lib_malformed)
  have "map_of ?fs' ?nn = Some ''N''"
    using N [THEN conjunct2, THEN conjunct1] nobody [of ?nn] store_mal_facts(6) by simp
  moreover have "map_of ?fs' ?xx = Some ''?''"
    using X [THEN conjunct2, THEN conjunct1] nobody [of ?xx] store_mal_facts(7) by simp
  moreover have "\<forall>m' \<in> set (glob_json ?dir store_mal).
      expired demo_lib (150 * second) (file_get_contents store_mal m') \<longrightarrow>
        m' \<noteq> ''/srv/uploads/nn__n.txt''
        \<and> backing demo_lib (file_get_contents store_mal m') \<noteq> Some ''/srv/uploads/nn__n.txt''"
    by (simp add: store_mal_facts demo_lib_facts demo_lib_malformed)
  then have "map_of ?fs' ''/srv/uploads/nn__n.txt'' = Some ''bytes''"
    using N [THEN conjunct2, THEN conjunct2, THEN conjunct1, THEN spec, of "''/srv/uploads/nn__n.txt''"]
      store_mal_facts(3,8) demo_lib_malformed(5) by simp
  moreover have "handle_get demo_lib demo_cfg later_world ''xx'' True store_mal =
       (not_found True, unlink ?xx store_mal, [Unlink ?xx])"
  proof -
    from X have "str_truthy (sanitize_id ''xx'') \<and> ?xx = meta_path demo_cfg (sanitize_id ''xx'')
          \<and> file_exists demo_lib store_mal ?xx \<and> dangling demo_lib store_mal (file_get_contents store_mal ?xx)
          \<longrightarrow> handle_get demo_lib demo_cfg later_world ''xx'' True store_mal =
                (not_found True, unlink ?xx store_mal, [Unlink ?xx])"
      by blast
    then show ?thesis by (simp add: demo_ids store_mal_facts demo_lib_malformed)
  qed
  ultimately show ?thesis using run mn mx demo_lib_facts(1) by (intro conjI)
qed

theorem alias_removes_malformed_counterexample:
  "malformed demo_lib (file_get_contents store_alias ''/srv/uploads/meta/xx.json'')
   \<and> file_exists demo_lib store_alias ''/srv/uploads/meta/xx.json''
   \<and> cleanupExpired demo_lib ''/srv/uploads/meta'' 48 (150 * second) store_alias =
       (Done, [], [Unlink ''/srv/uploads/meta/xx.json'', Unlink ''/srv/uploads/meta/dd.json''])"
  by code_simp

subsection \<open>Partial state\<close>

text \<open>
  A record without bytes that the sweep leaves is a record without bytes
  afterwards: the sweep deletes files and makes none.
\<close>

lemma sweep_keeps_dangling:
  assumes "cleanupExpired lib dir hours now fs = (r, fs1, ops1)"
    and "json_decode lib [] = JNull"
    and "file_exists lib fs1 m"
    and "\<not> file_exists lib fs m \<or> dangling lib fs (file_get_contents fs m)"
  shows "dangling lib fs1 (file_get_contents fs1 m)"
proof -
  have run: "sweep_loop lib now (glob_json dir fs) fs = (r, fs1, ops1)"
    using assms(1) by (simp add: cleanupExpired_def)
  have mono: "map_of fs1 q = None \<or> map_of fs1 q = map_of fs q" for q
    using run by (rule sweep_loop_mono)
  have gone: "\<not> file_exists lib fs p \<Longrightarrow> \<not> file_exists lib fs1 p" for p
    using mono [of p] by (auto simp: file_exists_def is_file_def)
  show ?thesis
  proof (cases "map_of fs1 m")
    case None
    then have "file_get_contents fs1 m = []" by (rule contents_missing)
    with assms(2) show ?thesis by (simp add: dangling_def)
  next
    case (Some s)
    with mono [of m] have same: "map_of fs1 m = map_of fs m" by simp
    with Some have "file_exists lib fs m" by (simp add: file_exists_def is_file_def)
    with assms(4) have d: "dangling lib fs (file_get_contents fs m)" by simp
    from d gone show ?thesis
      by (auto simp: dangling_def Let_def contents_same [OF same] split: option.splits)
  qed
qed

text \<open>
  Claim C8, as amended. Take an info or download request whose sweep completes,
  for an id that, stripped, is neither empty nor \<^verbatim>\<open>0\<close>, where nothing exists at
  the metadata path of the id, or the text there decodes to nothing PHP takes
  for true, or its path is missing or empty, or its path is a string that names
  nothing that exists, neither a file nor a directory. The answer is 404. If
  something exists at the metadata path after the sweep, the GET branch unlinks
  it, and no file is there afterwards. The branch deletes nothing else: every
  other file is as the sweep left it, and as it was before the request when no
  expired record is stored at it or names it as its path. So bytes that no
  record names stay where they are.
\<close>

theorem partial_state_not_found:
  assumes "req_method req = ''GET''" and "get_id req = Some raw"
    and "str_truthy (sanitize_id raw)"
    and "cleanupExpired lib (metaDir cfg) (expirationHours cfg) (at_sweep w) fs = (Done, fs1, ops1)"
    and "json_decode lib [] = JNull"
    and "\<not> file_exists lib fs (meta_path cfg (sanitize_id raw))
         \<or> dangling lib fs (file_get_contents fs (meta_path cfg (sanitize_id raw)))"
  shows "run lib cfg w req fs =
           ((if get_info req then json_error 404 ''File not found''
             else Plain 404 ''File not found''),
            (if file_exists lib fs1 (meta_path cfg (sanitize_id raw))
             then unlink (meta_path cfg (sanitize_id raw)) fs1 else fs1),
            ops1 @ (if file_exists lib fs1 (meta_path cfg (sanitize_id raw))
                    then [Unlink (meta_path cfg (sanitize_id raw))] else []))
    \<and> map_of (fst (snd (run lib cfg w req fs))) (meta_path cfg (sanitize_id raw)) = None
    \<and> (\<forall>q. q \<noteq> meta_path cfg (sanitize_id raw) \<longrightarrow>
          map_of (fst (snd (run lib cfg w req fs))) q = map_of fs1 q)
    \<and> (\<forall>q. q \<noteq> meta_path cfg (sanitize_id raw)
          \<and> (\<forall>m' \<in> set (glob_json (metaDir cfg) fs).
                expired lib (at_sweep w) (file_get_contents fs m') \<longrightarrow>
                  m' \<noteq> q \<and> backing lib (file_get_contents fs m') \<noteq> Some q)
          \<longrightarrow> map_of (fst (snd (run lib cfg w req fs))) q = map_of fs q)"
proof -
  let ?m = "meta_path cfg (sanitize_id raw)"
  have r: "run lib cfg w req fs =
     (case handle_get lib cfg w raw (get_info req) fs1 of (r, fs2, ops2) \<Rightarrow> (r, fs2, ops1 @ ops2))"
    using assms(1,2,4) by (rule run_get)
  have eq: "run lib cfg w req fs =
           (not_found (get_info req),
            (if file_exists lib fs1 ?m then unlink ?m fs1 else fs1),
            ops1 @ (if file_exists lib fs1 ?m then [Unlink ?m] else []))"
  proof (cases "file_exists lib fs1 ?m")
    case False
    with assms(3) r show ?thesis by (simp add: handle_get_missing)
  next
    case True
    have "dangling lib fs1 (file_get_contents fs1 ?m)"
      using assms(4,5) True assms(6) by (rule sweep_keeps_dangling)
    with assms(3) True r show ?thesis by (simp add: handle_get_dangling)
  qed
  have 1: "run lib cfg w req fs =
           ((if get_info req then json_error 404 ''File not found''
             else Plain 404 ''File not found''),
            (if file_exists lib fs1 ?m then unlink ?m fs1 else fs1),
            ops1 @ (if file_exists lib fs1 ?m then [Unlink ?m] else []))"
    using eq by (simp add: not_found_def)
  have 2: "map_of (fst (snd (run lib cfg w req fs))) ?m = None"
    by (simp add: eq not_exists_missing)
  have 3: "map_of (fst (snd (run lib cfg w req fs))) q = map_of fs1 q" if "q \<noteq> ?m" for q
    using that by (simp add: eq)
  have 4: "map_of (fst (snd (run lib cfg w req fs))) q = map_of fs q"
    if q: "q \<noteq> ?m"
      and no: "\<forall>m' \<in> set (glob_json (metaDir cfg) fs).
                expired lib (at_sweep w) (file_get_contents fs m') \<longrightarrow>
                  m' \<noteq> q \<and> backing lib (file_get_contents fs m') \<noteq> Some q" for q
  proof -
    have run: "sweep_loop lib (at_sweep w) (glob_json (metaDir cfg) fs) fs = (Done, fs1, ops1)"
      using assms(4) by (simp add: cleanupExpired_def)
    have nul: "\<not> truthy (json_decode lib [])" using assms(5) by simp
    from sweep_loop_preserves [OF nul no run] 3 [OF q] show ?thesis by simp
  qed
  from 1 2 3 4 show ?thesis by blast
qed

theorem partial_state_not_found_witness:
  "req_method (demo_get ''c-c'' True) = ''GET'' \<and> get_id (demo_get ''c-c'' True) = Some ''c-c''
   \<and> sanitize_id ''c-c'' = ''cc'' \<and> str_truthy ''cc''
   \<and> meta_path demo_cfg ''cc'' = ''/srv/uploads/meta/cc.json''
   \<and> cleanupExpired demo_lib (metaDir demo_cfg) (expirationHours demo_cfg) (at_sweep later_world)
        store_partial = (Done, store_partial, [])
   \<and> json_decode demo_lib [] = JNull
   \<and> file_exists demo_lib store_partial ''/srv/uploads/meta/cc.json''
   \<and> dangling demo_lib store_partial (file_get_contents store_partial ''/srv/uploads/meta/cc.json'')
   \<and> run demo_lib demo_cfg later_world (demo_get ''c-c'' True) store_partial =
       (json_error 404 ''File not found'', [(''/srv/uploads/dd__d.txt'', ''bytes'')],
        [Unlink ''/srv/uploads/meta/cc.json''])
   \<and> map_of (fst (snd (run demo_lib demo_cfg later_world (demo_get ''c-c'' True) store_partial)))
        ''/srv/uploads/meta/cc.json'' = None
   \<and> map_of (fst (snd (run demo_lib demo_cfg later_world (demo_get ''c-c'' True) store_partial)))
        ''/srv/uploads/dd__d.txt'' = Some ''bytes''"
proof -
  have g: "req_method (demo_get ''c-c'' True) = ''GET''" "get_id (demo_get ''c-c'' True) = Some ''c-c''"
    "get_info (demo_get ''c-c'' True)"
    by (simp_all add: demo_get_def)
  have i: "sanitize_id ''c-c'' = ''cc''" "str_truthy ''cc''"
    "meta_path demo_cfg ''cc'' = ''/srv/uploads/meta/cc.json''"
    by code_simp+
  have t: "str_truthy (sanitize_id ''c-c'')" by (simp add: i)
  have s: "cleanupExpired demo_lib (metaDir demo_cfg) (expirationHours demo_cfg) (at_sweep later_world)
        store_partial = (Done, store_partial, [])"
    by code_simp
  have e: "file_exists demo_lib store_partial ''/srv/uploads/meta/cc.json''"
    "unlink ''/srv/uploads/meta/cc.json'' store_partial = [(''/srv/uploads/dd__d.txt'', ''bytes'')]"
    "map_of store_partial ''/srv/uploads/dd__d.txt'' = Some ''bytes''"
    by code_simp+
  have d: "dangling demo_lib store_partial (file_get_contents store_partial ''/srv/uploads/meta/cc.json'')"
    by code_simp
  then have d': "\<not> file_exists demo_lib store_partial (meta_path demo_cfg (sanitize_id ''c-c''))
      \<or> dangling demo_lib store_partial
        (file_get_contents store_partial (meta_path demo_cfg (sanitize_id ''c-c'')))"
    by (simp add: i)
  note T = partial_state_not_found [OF g(1,2) t s demo_lib_facts(1) d']
  have 1: "run demo_lib demo_cfg later_world (demo_get ''c-c'' True) store_partial =
       (json_error 404 ''File not found'', [(''/srv/uploads/dd__d.txt'', ''bytes'')],
        [Unlink ''/srv/uploads/meta/cc.json''])"
    using T [THEN conjunct1] by (simp add: g i e)
  have 2: "map_of (fst (snd (run demo_lib demo_cfg later_world (demo_get ''c-c'' True) store_partial)))
        ''/srv/uploads/meta/cc.json'' = None"
    using T [THEN conjunct2, THEN conjunct1] by (simp only: i)
  have no: "\<forall>m' \<in> set (glob_json (metaDir demo_cfg) store_partial).
      expired demo_lib (at_sweep later_world) (file_get_contents store_partial m') \<longrightarrow>
        m' \<noteq> ''/srv/uploads/dd__d.txt''
        \<and> backing demo_lib (file_get_contents store_partial m') \<noteq> Some ''/srv/uploads/dd__d.txt''"
    by code_simp
  have ne: "''/srv/uploads/dd__d.txt'' \<noteq> meta_path demo_cfg (sanitize_id ''c-c'')"
    by (simp add: i)
  have 3: "map_of (fst (snd (run demo_lib demo_cfg later_world (demo_get ''c-c'' True) store_partial)))
        ''/srv/uploads/dd__d.txt'' = Some ''bytes''"
    using T [THEN conjunct2, THEN conjunct2, THEN conjunct2, THEN spec,
        of "''/srv/uploads/dd__d.txt''"] ne no
    by (simp only: e simp_thms)
  from g(1,2) i s demo_lib_facts(1) e(1) d 1 2 3 show ?thesis by (intro conjI)
qed

theorem orphan_bytes_stay_counterexample:
  "\<not> file_exists demo_lib store_partial ''/srv/uploads/meta/dd.json''
   \<and> file_exists demo_lib store_partial ''/srv/uploads/dd__d.txt''
   \<and> run demo_lib demo_cfg later_world (demo_get ''dd'' False) store_partial =
       (Plain 404 ''File not found'', store_partial, [])
   \<and> run demo_lib demo_cfg later_world (demo_get ''dd'' True) store_partial =
       (json_error 404 ''File not found'', store_partial, [])"
  by code_simp

text \<open>
  What is outside the claim as amended. A record whose path names a directory is
  served: the download has the headers of the record and no bytes, and the
  record stays. A record whose path is a number ends the script with a type
  error, and so does, in the sweep of any request, a record whose \<^verbatim>\<open>expiresAt\<close>
  is no date.
\<close>

lemma directory_path_served:
  "run demo_lib demo_cfg later_world (demo_get ''pp'' False) store_dir =
     (Download [''Content-Type: application/octet-stream'', ''Content-Length: 5'',
                ''Content-Disposition: attachment; filename='' @ [CHR 0x22] @ ''p.txt'' @ [CHR 0x22],
                ''X-Fileshare-Filename: p.txt''] [],
      store_dir, [])"
  by code_simp

lemma unusable_record_fatal:
  "run demo_lib demo_cfg later_world (demo_get ''qq'' False) store_num = (Fatal, store_num, [])"
  "\<not> is_file store_soon ''/srv/uploads/zz__z.txt''"
  "run demo_lib demo_cfg later_world (demo_get ''zz'' False) store_soon = (Fatal, store_soon, [])"
  by code_simp+

subsection \<open>Requests for an expired record\<close>

text \<open>
  The sweep at the start of a request removes an expired record before the GET
  branch looks for it: the branch finds nothing at the metadata path and answers
  404.
\<close>

lemma run_expired_swept:
  assumes "req_method req = ''GET''" and "get_id req = Some raw"
    and "str_truthy (sanitize_id raw)"
    and "cleanupExpired lib (metaDir cfg) (expirationHours cfg) (at_sweep w) fs = (Done, fs1, ops1)"
    and "meta_path cfg (sanitize_id raw) \<in> set (glob_json (metaDir cfg) fs)"
    and "expired lib (at_sweep w) (file_get_contents fs (meta_path cfg (sanitize_id raw)))"
    and "\<not> is_dir lib (meta_path cfg (sanitize_id raw))"
  shows "run lib cfg w req fs = (not_found (get_info req), fs1, ops1)"
proof -
  have "sweep_loop lib (at_sweep w) (glob_json (metaDir cfg) fs) fs = (Done, fs1, ops1)"
    using assms(4) by (simp add: cleanupExpired_def)
  from sweep_loop_removes [OF this assms(5,6)] assms(7)
  have "\<not> file_exists lib fs1 (meta_path cfg (sanitize_id raw))"
    by (simp add: file_exists_def is_file_def)
  with assms(1-4) show ?thesis by (simp add: run_get handle_get_missing)
qed

text \<open>
  The GET branch answers 410 only for a record the sweep has left: one that
  expires between the sweep's reading of the clock and the branch's own.
\<close>

lemma run_gone_between_readings:
  assumes "req_method req = ''GET''" and "get_id req = Some raw"
    and "cleanupExpired lib (metaDir cfg) (expirationHours cfg) (at_sweep w) fs = (Done, fs1, ops1)"
    and "fst (run lib cfg w req fs) = gone (get_info req)"
  shows "\<exists>e. date_arg lib (field (json_decode lib
                 (file_get_contents fs1 (meta_path cfg (sanitize_id raw)))) ''expiresAt'') = Some e
             \<and> e < at_check w"
proof -
  have r: "run lib cfg w req fs =
     (case handle_get lib cfg w raw (get_info req) fs1 of (r, fs2, ops2) \<Rightarrow> (r, fs2, ops1 @ ops2))"
    using assms(1-3) by (rule run_get)
  with assms(4) have "fst (handle_get lib cfg w raw (get_info req) fs1) = gone (get_info req)"
    by (simp split: prod.splits)
  then show ?thesis
    by (auto simp: handle_get_def Let_def gone_def not_found_def bad_id_def json_error_def
        info_response_def download_response_def json_ok_def
        split: if_splits option.splits)
qed

text \<open>
  Claim C4. A record whose expiry time is in the past when the request arrives:
  the claim has the request answered 410; the script answers 404, the sweep
  having deleted the bytes and then the metadata file.
\<close>

theorem expired_request_answered_404:
  "expired demo_lib (at_sweep later_world)
     (file_get_contents store_ab ''/srv/uploads/meta/aa.json'')
   \<and> run demo_lib demo_cfg later_world (demo_get ''aa'' True) store_ab =
       (json_error 404 ''File not found'',
        [(''/srv/uploads/meta/bb.json'', ''B''), (''/srv/uploads/bb__b.txt'', ''world'')],
        [Unlink ''/srv/uploads/aa__a.txt'', Unlink ''/srv/uploads/meta/aa.json''])
   \<and> run demo_lib demo_cfg later_world (demo_get ''aa'' False) store_ab =
       (Plain 404 ''File not found'',
        [(''/srv/uploads/meta/bb.json'', ''B''), (''/srv/uploads/bb__b.txt'', ''world'')],
        [Unlink ''/srv/uploads/aa__a.txt'', Unlink ''/srv/uploads/meta/aa.json''])"
  by code_simp
subsection \<open>What an upload request is answered\<close>

text \<open>
  Claim C6, as amended. Take an upload request whose sweep completes. Without a
  file the answer is 400, and so it is when PHP reports an upload error; a
  payload larger than the maximum is answered 413; in these cases the POST
  branch writes nothing, and the store is as the sweep left it. A payload of any
  size up to the maximum, the maximum itself and the empty payload included, is
  stored when the move succeeds: the answer is 200, the bytes are at the target
  path and the record is in the metadata file.
\<close>

theorem upload_size_limits:
  assumes "req_method req = ''POST''" and "post_action req = Some ''upload''"
    and "cleanupExpired lib (metaDir cfg) (expirationHours cfg) (at_sweep w) fs = (Done, fs1, ops1)"
  shows "(files_file req = None \<longrightarrow>
            run lib cfg w req fs = (json_error 400 ''Missing file payload'', fs1, ops1))
    \<and> (\<forall>u. files_file req = Some u \<and> upl_error u \<noteq> 0 \<longrightarrow>
            run lib cfg w req fs =
              (json_error 400 (''Upload failed (error code '' @ int_string (upl_error u) @ '')''),
               fs1, ops1))
    \<and> (\<forall>u. files_file req = Some u \<and> upl_error u = 0 \<and> maxSize cfg < upl_size u \<longrightarrow>
            run lib cfg w req fs =
              (json_error 413 ''File exceeds maximum allowed size'', fs1, ops1))
    \<and> (\<forall>u. files_file req = Some u \<and> upl_error u = 0 \<and> upl_size u \<le> maxSize cfg
            \<and> move_ok w \<longrightarrow>
            fst (run lib cfg w req fs) =
              json_ok (JObj [(''id'', JStr (new_id w)),
                             (''filename'', JStr (original_name u)),
                             (''downloadUrl'', JStr (base_url req @ ''?id='' @ new_id w)),
                             (''expiresAt'', JStr (expires_at lib cfg w)),
                             (''size'', JNum (int (length (upl_tmp u))))])
            \<and> snd (snd (run lib cfg w req fs)) =
                ops1 @ [Write (target_path cfg (stored_name (new_id w) (original_name u))),
                        Write (meta_path cfg (new_id w))]
            \<and> is_file (fst (snd (run lib cfg w req fs))) (meta_path cfg (new_id w))
            \<and> map_of (fst (snd (run lib cfg w req fs)))
                  (target_path cfg (stored_name (new_id w) (original_name u)))
                = Some (upl_tmp u))"
proof -
  have r: "run lib cfg w req fs =
     (case handle_post lib cfg w req fs1 of (r, fs2, ops2) \<Rightarrow> (r, fs2, ops1 @ ops2))"
    using assms(1,3) by (rule run_post)
  have 1: "files_file req = None \<longrightarrow>
            run lib cfg w req fs = (json_error 400 ''Missing file payload'', fs1, ops1)"
    using assms(2) by (simp add: r handle_post_def)
  have 2: "run lib cfg w req fs =
              (json_error 400 (''Upload failed (error code '' @ int_string (upl_error u) @ '')''),
               fs1, ops1)" if "files_file req = Some u \<and> upl_error u \<noteq> 0" for u
    using assms(2) that by (simp add: r handle_post_def)
  have 3: "run lib cfg w req fs =
              (json_error 413 ''File exceeds maximum allowed size'', fs1, ops1)"
    if "files_file req = Some u \<and> upl_error u = 0 \<and> maxSize cfg < upl_size u" for u
    using assms(2) that by (simp add: r handle_post_def)
  have 4: "fst (run lib cfg w req fs) =
              json_ok (JObj [(''id'', JStr (new_id w)),
                             (''filename'', JStr (original_name u)),
                             (''downloadUrl'', JStr (base_url req @ ''?id='' @ new_id w)),
                             (''expiresAt'', JStr (expires_at lib cfg w)),
                             (''size'', JNum (int (length (upl_tmp u))))])
            \<and> snd (snd (run lib cfg w req fs)) =
                ops1 @ [Write (target_path cfg (stored_name (new_id w) (original_name u))),
                        Write (meta_path cfg (new_id w))]
            \<and> is_file (fst (snd (run lib cfg w req fs))) (meta_path cfg (new_id w))
            \<and> map_of (fst (snd (run lib cfg w req fs)))
                  (target_path cfg (stored_name (new_id w) (original_name u)))
                = Some (upl_tmp u)"
    if "files_file req = Some u \<and> upl_error u = 0 \<and> upl_size u \<le> maxSize cfg \<and> move_ok w" for u
  proof -
    from that assms(2)
    have a: "post_action req = Some ''upload''" "files_file req = Some u" "upl_error u = 0"
      "upl_size u \<le> maxSize cfg" "move_ok w" by simp_all
    show ?thesis
      using target_not_meta [of cfg w u]
      by (simp add: r handle_post_accepted [OF a] Let_def upload_meta_def filesize_def coalesce_def)
  qed
  from 1 2 3 4 show ?thesis by blast
qed

theorem upload_size_limits_witness:
  "req_method (post_of None) = ''POST'' \<and> post_action (post_of None) = Some ''upload''
   \<and> cleanupExpired demo_lib (metaDir demo_cfg) (expirationHours demo_cfg) (at_sweep demo_world)
        store_ab = (Done, store_ab, [])
   \<and> run demo_lib demo_cfg demo_world (post_of None) store_ab =
        (json_error 400 ''Missing file payload'', store_ab, [])
   \<and> run demo_lib demo_cfg demo_world (post_of (Some (demo_upload \<lparr> upl_error := 4 \<rparr>))) store_ab =
        (json_error 400 ''Upload failed (error code 4)'', store_ab, [])
   \<and> maxSize demo_cfg < upl_size (full_upload \<lparr> upl_size := 1073741825 \<rparr>)
   \<and> run demo_lib demo_cfg demo_world (post_of (Some (full_upload \<lparr> upl_size := 1073741825 \<rparr>)))
        store_ab = (json_error 413 ''File exceeds maximum allowed size'', store_ab, [])
   \<and> upl_size full_upload = maxSize demo_cfg
   \<and> int (length (upl_tmp full_upload)) = maxSize demo_cfg
   \<and> fst (run demo_lib demo_cfg demo_world (post_of (Some full_upload)) store_ab) =
        json_ok (JObj [(''id'', JStr ''00ab7f10ff42''), (''filename'', JStr ''big.bin''),
                       (''downloadUrl'', JStr ''http://localhost/fileShare.php?id=00ab7f10ff42''),
                       (''expiresAt'', JStr ''T172810''), (''size'', JNum 1073741824)])
   \<and> is_file (fst (snd (run demo_lib demo_cfg demo_world (post_of (Some full_upload)) store_ab)))
        ''/srv/uploads/meta/00ab7f10ff42.json''"
proof -
  note T = upload_size_limits [OF post_of_facts(1,2) sweep_store_ab_early]
  have "run demo_lib demo_cfg demo_world (post_of None) store_ab =
        (json_error 400 ''Missing file payload'', store_ab, [])"
    using T [of None, THEN conjunct1] by (simp add: post_of_facts)
  moreover have "run demo_lib demo_cfg demo_world (post_of (Some (demo_upload \<lparr> upl_error := 4 \<rparr>))) store_ab =
        (json_error 400 ''Upload failed (error code 4)'', store_ab, [])"
  proof -
    have "int_string 4 = ''4''" by code_simp
    moreover have "upl_error (demo_upload \<lparr> upl_error := 4 \<rparr>) = 4" by simp
    ultimately show ?thesis
      using T [of "Some (demo_upload \<lparr> upl_error := 4 \<rparr>)", THEN conjunct2, THEN conjunct1, THEN spec,
          of "demo_upload \<lparr> upl_error := 4 \<rparr>"]
      by (simp add: post_of_facts)
  qed
  moreover have over: "maxSize demo_cfg < upl_size (full_upload \<lparr> upl_size := 1073741825 \<rparr>)"
    by (simp add: demo_cfg_dirs)
  moreover have "run demo_lib demo_cfg demo_world (post_of (Some (full_upload \<lparr> upl_size := 1073741825 \<rparr>)))
        store_ab = (json_error 413 ''File exceeds maximum allowed size'', store_ab, [])"
  proof -
    have "upl_error (full_upload \<lparr> upl_size := 1073741825 \<rparr>) = 0" by (simp add: full_upload_def)
    with over show ?thesis
      using T [of "Some (full_upload \<lparr> upl_size := 1073741825 \<rparr>)", THEN conjunct2, THEN conjunct2,
          THEN conjunct1, THEN spec, of "full_upload \<lparr> upl_size := 1073741825 \<rparr>"]
      by (simp add: post_of_facts)
  qed
  moreover have full: "upl_size full_upload = maxSize demo_cfg"
    "int (length (upl_tmp full_upload)) = maxSize demo_cfg" "upl_error full_upload = 0"
    "original_name full_upload = ''big.bin''"
    by (simp_all add: full_upload_def demo_cfg_dirs original_name_def or_default_def str_truthy_def)
  moreover have "fst (run demo_lib demo_cfg demo_world (post_of (Some full_upload)) store_ab) =
        json_ok (JObj [(''id'', JStr ''00ab7f10ff42''), (''filename'', JStr ''big.bin''),
                       (''downloadUrl'', JStr ''http://localhost/fileShare.php?id=00ab7f10ff42''),
                       (''expiresAt'', JStr ''T172810''), (''size'', JNum 1073741824)])
      \<and> is_file (fst (snd (run demo_lib demo_cfg demo_world (post_of (Some full_upload)) store_ab)))
        ''/srv/uploads/meta/00ab7f10ff42.json''"
    using T [of "Some full_upload", THEN conjunct2, THEN conjunct2, THEN conjunct2, THEN spec,
        of full_upload] full
    by (simp add: post_of_facts demo_world_facts demo_cfg_dirs)
  ultimately show ?thesis
    using post_of_facts(1,2) [of None] sweep_store_ab_early by (intro conjI) simp_all
qed

theorem empty_upload_accepted_counterexample:
  "upl_tmp empty_upload = [] \<and> upl_size empty_upload = 0
   \<and> run demo_lib demo_cfg demo_world (post_of (Some empty_upload)) [] =
       (json_ok (JObj [(''id'', JStr ''00ab7f10ff42''), (''filename'', JStr ''e.txt''),
                       (''downloadUrl'', JStr ''http://localhost/fileShare.php?id=00ab7f10ff42''),
                       (''expiresAt'', JStr ''T172810''), (''size'', JNum 0)]),
        [(''/srv/uploads/00ab7f10ff42__e.txt'', []), (''/srv/uploads/meta/00ab7f10ff42.json'', ''E'')],
        [Write ''/srv/uploads/00ab7f10ff42__e.txt'', Write ''/srv/uploads/meta/00ab7f10ff42.json''])"
  by code_simp

subsection \<open>Where an upload is stored\<close>

text \<open>
  Claim C9, as amended. Take an upload request that is answered 200. Its payload
  is then the file of the upload directory whose name is the generated id, two
  underscores and the submitted file name with every character outside
  \<^verbatim>\<open>A-Za-z0-9_.-\<close> replaced by an underscore (\<^verbatim>\<open>fileshare.bin\<close> for a name PHP
  takes for empty); the record, which names that file as its path, is the
  metadata file of the id; the request has written these two files and no
  other, every other file being as the sweep left it. The stored name has no
  character outside \<^verbatim>\<open>A-Za-z0-9_.-\<close>, so no path separator. Another upload of
  the same file name is stored at another path exactly when the random bytes
  drawn for it are others.
\<close>

theorem stored_location_derived:
  assumes "req_method req = ''POST''" and "files_file req = Some u"
    and "run lib cfg w req fs = (json_ok d, fs2, ops)"
  shows "target_path cfg (stored_name (new_id w) (original_name u)) =
           rtrim_slash (uploadDir cfg) @ ''/'' @ bin2hex (random_bytes w) @ ''__''
           @ map (\<lambda>c. if c \<in> set ''ABCDEFGHIJKLMNOPQRSTUVWXYZabcdefghijklmnopqrstuvwxyz0123456789_.-''
                      then c else CHR ''_'')
               (if upl_name u = [] \<or> upl_name u = ''0'' then ''fileshare.bin'' else upl_name u)
    \<and> ops = snd (snd (cleanupExpired lib (metaDir cfg) (expirationHours cfg) (at_sweep w) fs))
              @ [Write (target_path cfg (stored_name (new_id w) (original_name u))),
                 Write (meta_path cfg (new_id w))]
    \<and> (\<forall>q. map_of fs2 q =
          (if q = meta_path cfg (new_id w) then Some (json_encode lib (record_written lib cfg w u))
           else if q = target_path cfg (stored_name (new_id w) (original_name u))
             then Some (upl_tmp u)
           else map_of (fst (snd (cleanupExpired lib (metaDir cfg) (expirationHours cfg)
                                    (at_sweep w) fs))) q))
    \<and> field (record_written lib cfg w u) ''path'' =
          Some (JStr (target_path cfg (stored_name (new_id w) (original_name u))))
    \<and> set (stored_name (new_id w) (original_name u))
          \<subseteq> set ''ABCDEFGHIJKLMNOPQRSTUVWXYZabcdefghijklmnopqrstuvwxyz0123456789_.-''
    \<and> CHR ''/'' \<notin> set (stored_name (new_id w) (original_name u))
    \<and> (\<forall>w' u'. upl_name u' = upl_name u \<longrightarrow>
          (target_path cfg (stored_name (new_id w') (original_name u'))
             = target_path cfg (stored_name (new_id w) (original_name u)))
          = (random_bytes w' = random_bytes w))"
proof -
  let ?S = "\<lambda>c. c \<in> set ''ABCDEFGHIJKLMNOPQRSTUVWXYZabcdefghijklmnopqrstuvwxyz0123456789_.-''"
  let ?t = "target_path cfg (stored_name (new_id w) (original_name u))"
  let ?sw = "cleanupExpired lib (metaDir cfg) (expirationHours cfg) (at_sweep w) fs"
  have safe: "is_safe = ?S" by (rule ext) (rule is_safe_chars)
  from run_post_ok [OF assms]
  have a: "fst ?sw = Done" "post_action req = Some ''upload''" "upl_error u = 0"
    "upl_size u \<le> maxSize cfg" "move_ok w" by simp_all
  from a(1) have sw: "?sw = (Done, fst (snd ?sw), snd (snd ?sw))"
    by (cases ?sw) simp
  note r = run_post_accepted [OF assms(1) a(2) assms(2) a(3-5) sw]
  have 1: "?t = rtrim_slash (uploadDir cfg) @ ''/'' @ bin2hex (random_bytes w) @ ''__''
           @ map (\<lambda>c. if ?S c then c else CHR ''_'')
               (if upl_name u = [] \<or> upl_name u = ''0'' then ''fileshare.bin'' else upl_name u)"
  proof -
    have o: "original_name u =
        (if upl_name u = [] \<or> upl_name u = ''0'' then ''fileshare.bin'' else upl_name u)"
      by (simp add: original_name_def or_default_def str_truthy_def)
    have n: "sanitize_name x = map (\<lambda>c. if ?S c then c else CHR ''_'') x" for x
      by (simp only: sanitize_name_def safe)
    have "?t = rtrim_slash (uploadDir cfg) @ ''/'' @ bin2hex (random_bytes w) @ ''__''
           @ sanitize_name (original_name u)"
      by (simp add: target_path_def stored_name_eq new_id_def)
    then show ?thesis by (simp only: n o)
  qed
  have 2: "ops = snd (snd ?sw) @ [Write ?t, Write (meta_path cfg (new_id w))]"
    using assms(3) r by simp
  have fs2: "fs2 = file_put_contents (meta_path cfg (new_id w))
        (json_encode lib (record_written lib cfg w u)) (file_put_contents ?t (upl_tmp u) (fst (snd ?sw)))"
    using assms(3) r by simp
  have 3: "map_of fs2 q =
          (if q = meta_path cfg (new_id w) then Some (json_encode lib (record_written lib cfg w u))
           else if q = ?t then Some (upl_tmp u) else map_of (fst (snd ?sw)) q)" for q
    unfolding fs2 by simp
  have 4: "field (record_written lib cfg w u) ''path'' = Some (JStr ?t)"
    by (rule record_written_fields)
  have all: "list_all is_safe (stored_name (new_id w) (original_name u))"
    unfolding stored_name_eq by (rule stored_name_safe)
  have 5: "set (stored_name (new_id w) (original_name u))
          \<subseteq> set ''ABCDEFGHIJKLMNOPQRSTUVWXYZabcdefghijklmnopqrstuvwxyz0123456789_.-''"
  proof
    fix c assume "c \<in> set (stored_name (new_id w) (original_name u))"
    with all have "is_safe c" by (simp add: list_all_iff)
    then show "c \<in> set ''ABCDEFGHIJKLMNOPQRSTUVWXYZabcdefghijklmnopqrstuvwxyz0123456789_.-''"
      by (simp only: is_safe_chars)
  qed
  have 6: "CHR ''/'' \<notin> set (stored_name (new_id w) (original_name u))"
    using all is_safe_not_slash unfolding list_all_iff by blast
  have 7: "(target_path cfg (stored_name (new_id w') (original_name u')) = ?t)
          = (random_bytes w' = random_bytes w)" if "upl_name u' = upl_name u" for w' :: world and u' :: upload
  proof -
    from that have n: "original_name u' = original_name u" by (simp add: original_name_def)
    have "(target_path cfg (stored_name (new_id w') (original_name u')) = ?t)
        = (bin2hex (random_bytes w') = bin2hex (random_bytes w))"
      by (simp add: target_path_def stored_name_eq n new_id_def)
    also have "\<dots> = (random_bytes w' = random_bytes w)"
    proof
      assume "bin2hex (random_bytes w') = bin2hex (random_bytes w)"
      then show "random_bytes w' = random_bytes w" by (rule bin2hex_inj)
    next
      assume "random_bytes w' = random_bytes w"
      then show "bin2hex (random_bytes w') = bin2hex (random_bytes w)" by simp
    qed
    finally show ?thesis .
  qed
  show ?thesis
  proof (intro conjI allI impI)
    show "?t = rtrim_slash (uploadDir cfg) @ ''/'' @ bin2hex (random_bytes w) @ ''__''
           @ map (\<lambda>c. if ?S c then c else CHR ''_'')
               (if upl_name u = [] \<or> upl_name u = ''0'' then ''fileshare.bin'' else upl_name u)"
      by (rule 1)
    show "ops = snd (snd ?sw) @ [Write ?t, Write (meta_path cfg (new_id w))]" by (rule 2)
    show "map_of fs2 q =
          (if q = meta_path cfg (new_id w) then Some (json_encode lib (record_written lib cfg w u))
           else if q = ?t then Some (upl_tmp u) else map_of (fst (snd ?sw)) q)" for q
      by (rule 3)
    show "field (record_written lib cfg w u) ''path'' = Some (JStr ?t)" by (rule 4)
    show "set (stored_name (new_id w) (original_name u))
          \<subseteq> set ''ABCDEFGHIJKLMNOPQRSTUVWXYZabcdefghijklmnopqrstuvwxyz0123456789_.-''"
      by (rule 5)
    show "CHR ''/'' \<notin> set (stored_name (new_id w) (original_name u))" by (rule 6)
    show "(target_path cfg (stored_name (new_id w') (original_name u')) = ?t)
          = (random_bytes w' = random_bytes w)" if "upl_name u' = upl_name u"
      for w' :: world and u' :: upload
      using that by (rule 7)
  qed
qed

theorem stored_location_derived_witness:
  "req_method (post_of (Some demo_upload)) = ''POST''
   \<and> files_file (post_of (Some demo_upload)) = Some demo_upload
   \<and> run demo_lib demo_cfg demo_world (post_of (Some demo_upload)) store_ab =
       (json_ok (JObj [(''id'', JStr ''00ab7f10ff42''), (''filename'', JStr ''my file(1).txt''),
                       (''downloadUrl'', JStr ''http://localhost/fileShare.php?id=00ab7f10ff42''),
                       (''expiresAt'', JStr ''T172810''), (''size'', JNum 5)]),
        store_ab @ [(''/srv/uploads/00ab7f10ff42__my_file_1_.txt'', ''hello''),
                    (''/srv/uploads/meta/00ab7f10ff42.json'', ''U'')],
        [Write ''/srv/uploads/00ab7f10ff42__my_file_1_.txt'',
         Write ''/srv/uploads/meta/00ab7f10ff42.json''])
   \<and> target_path demo_cfg (stored_name (new_id demo_world) (original_name demo_upload)) =
       ''/srv/uploads/00ab7f10ff42__my_file_1_.txt''
   \<and> map_of (store_ab @ [(''/srv/uploads/00ab7f10ff42__my_file_1_.txt'', ''hello''),
                          (''/srv/uploads/meta/00ab7f10ff42.json'', ''U'')])
         ''/srv/uploads/00ab7f10ff42__my_file_1_.txt'' = Some ''hello''
   \<and> map_of (store_ab @ [(''/srv/uploads/00ab7f10ff42__my_file_1_.txt'', ''hello''),
                          (''/srv/uploads/meta/00ab7f10ff42.json'', ''U'')])
         ''/srv/uploads/my file(1).txt'' = None
   \<and> field (record_written demo_lib demo_cfg demo_world demo_upload) ''path'' =
       Some (JStr ''/srv/uploads/00ab7f10ff42__my_file_1_.txt'')
   \<and> CHR ''/'' \<notin> set (stored_name (new_id demo_world) (original_name demo_upload))
   \<and> upl_name other_upload = upl_name demo_upload
   \<and> target_path demo_cfg
         (stored_name (new_id (demo_world \<lparr> random_bytes := ''abcdef'' \<rparr>)) (original_name other_upload))
       \<noteq> target_path demo_cfg (stored_name (new_id demo_world) (original_name demo_upload))"
proof -
  let ?t = "''/srv/uploads/00ab7f10ff42__my_file_1_.txt''"
  let ?fs2 = "store_ab @ [(''/srv/uploads/00ab7f10ff42__my_file_1_.txt'', ''hello''),
                    (''/srv/uploads/meta/00ab7f10ff42.json'', ''U'')]"
  have p: "req_method (post_of (Some demo_upload)) = ''POST''"
    "files_file (post_of (Some demo_upload)) = Some demo_upload"
    by (simp_all add: post_of_facts)
  have run: "run demo_lib demo_cfg demo_world (post_of (Some demo_upload)) store_ab =
       (json_ok (JObj [(''id'', JStr ''00ab7f10ff42''), (''filename'', JStr ''my file(1).txt''),
                       (''downloadUrl'', JStr ''http://localhost/fileShare.php?id=00ab7f10ff42''),
                       (''expiresAt'', JStr ''T172810''), (''size'', JNum 5)]),
        ?fs2, [Write ?t, Write ''/srv/uploads/meta/00ab7f10ff42.json''])"
    by code_simp
  note T = stored_location_derived [OF p run]
  have rhs: "rtrim_slash (uploadDir demo_cfg) @ ''/'' @ bin2hex (random_bytes demo_world) @ ''__''
           @ map (\<lambda>c. if c \<in> set ''ABCDEFGHIJKLMNOPQRSTUVWXYZabcdefghijklmnopqrstuvwxyz0123456789_.-''
                      then c else CHR ''_'')
               (if upl_name demo_upload = [] \<or> upl_name demo_upload = ''0'' then ''fileshare.bin''
                else upl_name demo_upload) = ?t"
    by code_simp
  have 1: "target_path demo_cfg (stored_name (new_id demo_world) (original_name demo_upload)) = ?t"
    using T [THEN conjunct1] rhs by (rule trans)
  have m: "meta_path demo_cfg (new_id demo_world) = ''/srv/uploads/meta/00ab7f10ff42.json''"
    by code_simp
  have s: "fst (snd (cleanupExpired demo_lib (metaDir demo_cfg) (expirationHours demo_cfg)
      (at_sweep demo_world) store_ab)) = store_ab"
    by (simp add: sweep_store_ab_early)
  note M = T [THEN conjunct2, THEN conjunct2, THEN conjunct1, unfolded 1 m s]
  have 2: "map_of ?fs2 ?t = Some ''hello''"
    using M [THEN spec, of ?t] by (simp add: demo_upload_def)
  have nf: "map_of store_ab ''/srv/uploads/my file(1).txt'' = None" by code_simp
  have 3: "map_of ?fs2 ''/srv/uploads/my file(1).txt'' = None"
    using M [THEN spec, of "''/srv/uploads/my file(1).txt''"] nf by simp
  have 4: "field (record_written demo_lib demo_cfg demo_world demo_upload) ''path'' = Some (JStr ?t)"
    using T [THEN conjunct2, THEN conjunct2, THEN conjunct2, THEN conjunct1] by (simp only: 1)
  have 5: "CHR ''/'' \<notin> set (stored_name (new_id demo_world) (original_name demo_upload))"
    using T [THEN conjunct2, THEN conjunct2, THEN conjunct2, THEN conjunct2, THEN conjunct2,
        THEN conjunct1] .
  have n: "upl_name other_upload = upl_name demo_upload"
    by (simp add: other_upload_def demo_upload_def)
  have r: "random_bytes (demo_world \<lparr> random_bytes := ''abcdef'' \<rparr>) \<noteq> random_bytes demo_world"
    by (simp add: demo_world_def)
  have 6: "target_path demo_cfg
         (stored_name (new_id (demo_world \<lparr> random_bytes := ''abcdef'' \<rparr>)) (original_name other_upload))
       \<noteq> target_path demo_cfg (stored_name (new_id demo_world) (original_name demo_upload))"
    using T [THEN conjunct2, THEN conjunct2, THEN conjunct2, THEN conjunct2, THEN conjunct2,
        THEN conjunct2, THEN spec, THEN spec, THEN mp, OF n,
        of "demo_world \<lparr> random_bytes := ''abcdef'' \<rparr>"] r
    by (simp only: simp_thms)
  from p run 1 2 3 4 5 n 6 show ?thesis by (intro conjI)
qed

theorem same_id_same_location_counterexample:
  "upl_name other_upload = upl_name demo_upload
   \<and> upl_tmp other_upload \<noteq> upl_tmp demo_upload
   \<and> random_bytes again_world = random_bytes demo_world
   \<and> run demo_lib demo_cfg demo_world (post_of (Some demo_upload)) [] =
       (json_ok (JObj [(''id'', JStr ''00ab7f10ff42''), (''filename'', JStr ''my file(1).txt''),
                       (''downloadUrl'', JStr ''http://localhost/fileShare.php?id=00ab7f10ff42''),
                       (''expiresAt'', JStr ''T172810''), (''size'', JNum 5)]),
        [(''/srv/uploads/00ab7f10ff42__my_file_1_.txt'', ''hello''),
         (''/srv/uploads/meta/00ab7f10ff42.json'', ''U'')],
        [Write ''/srv/uploads/00ab7f10ff42__my_file_1_.txt'',
         Write ''/srv/uploads/meta/00ab7f10ff42.json''])
   \<and> run demo_lib demo_cfg again_world (post_of (Some other_upload))
         [(''/srv/uploads/00ab7f10ff42__my_file_1_.txt'', ''hello''),
          (''/srv/uploads/meta/00ab7f10ff42.json'', ''U'')] =
       (json_ok (JObj [(''id'', JStr ''00ab7f10ff42''), (''filename'', JStr ''my file(1).txt''),
                       (''downloadUrl'', JStr ''http://localhost/fileShare.php?id=00ab7f10ff42''),
                       (''expiresAt'', JStr ''T172820''), (''size'', JNum 5)]),
        [(''/srv/uploads/00ab7f10ff42__my_file_1_.txt'', ''other''),
         (''/srv/uploads/meta/00ab7f10ff42.json'', ''U2'')],
        [Write ''/srv/uploads/00ab7f10ff42__my_file_1_.txt'',
         Write ''/srv/uploads/meta/00ab7f10ff42.json''])"
  by code_simp

subsection \<open>Upload, then download\<close>




subsection \<open>The two timestamps of a record\<close>

text \<open>
  Claim C2. The claim has the \<^verbatim>\<open>expiresAt\<close> of every record 48 hours after its
  \<^verbatim>\<open>uploadedAt\<close>. The script reads the clock once for \<^verbatim>\<open>expiresAt\<close> and once
  more for \<^verbatim>\<open>uploadedAt\<close>, and both texts keep whole seconds: when a second
  begins between the two readings, \<^verbatim>\<open>expiresAt\<close> is 48 hours less one second
  after \<^verbatim>\<open>uploadedAt\<close>, in the record and in the answer to the upload.
\<close>

theorem expiry_short_of_48_hours:
  "at_sweep straddle_world \<le> at_expiry straddle_world
   \<and> at_stamp straddle_world - at_expiry straddle_world = 1
   \<and> run demo_lib demo_cfg straddle_world (post_of (Some demo_upload)) [] =
       (json_ok (JObj [(''id'', JStr ''00ab7f10ff42''), (''filename'', JStr ''my file(1).txt''),
                       (''downloadUrl'', JStr ''http://localhost/fileShare.php?id=00ab7f10ff42''),
                       (''expiresAt'', JStr ''T172809''), (''size'', JNum 5)]),
        [(''/srv/uploads/00ab7f10ff42__my_file_1_.txt'', ''hello''),
         (''/srv/uploads/meta/00ab7f10ff42.json'', ''V'')],
        [Write ''/srv/uploads/00ab7f10ff42__my_file_1_.txt'',
         Write ''/srv/uploads/meta/00ab7f10ff42.json''])
   \<and> date_arg demo_lib (field (json_decode demo_lib ''V'') ''expiresAt'') = Some (172809 * second)
   \<and> date_arg demo_lib (field (json_decode demo_lib ''V'') ''uploadedAt'') = Some (10 * second)
   \<and> 172809 * second - 10 * second = expirationHours demo_cfg * 3600 * second - second"
  by code_simp

end
